theory Spec2Isabelle
  imports Main "HOL-Library.Char_ord" "HOL-Library.List_Lexorder"
begin

section \<open>Python strings\<close>

text \<open>
  The program is Python; its strings are modelled as HOL strings (lists of 8-bit
  characters).  The character classes below are those of Python's \<open>str\<close> methods and of
  the \<open>re\<close> module restricted to ASCII text, which is the domain of this development:
  a field name, a directive or a skip line with a letter outside ASCII is outside the model.
\<close>

definition TAB :: string where "TAB = [CHR 0x09]"
definition NL :: string where "NL = [CHR 0x0A]"
definition CR :: string where "CR = [CHR 0x0D]"
definition SQ :: string where "SQ = [CHR 0x27]"
definition DQ :: string where "DQ = [CHR 0x22]"

text \<open>\<open>quoted s\<close> is the f-string fragment \<open>'{s}'\<close>.\<close>

definition quoted :: "string \<Rightarrow> string" where
  "quoted s = SQ @ s @ SQ"

definition py_code :: "char \<Rightarrow> nat" where
  "py_code c = of_char c"

definition py_isspace :: "char \<Rightarrow> bool" where
  "py_isspace c = (py_code c \<in> {9, 10, 11, 12, 13, 28, 29, 30, 31, 32})"

definition py_isdigit :: "char \<Rightarrow> bool" where
  "py_isdigit c = (48 \<le> py_code c \<and> py_code c \<le> 57)"

definition py_isupper :: "char \<Rightarrow> bool" where
  "py_isupper c = (65 \<le> py_code c \<and> py_code c \<le> 90)"

definition py_islower :: "char \<Rightarrow> bool" where
  "py_islower c = (97 \<le> py_code c \<and> py_code c \<le> 122)"

definition py_isalnum :: "char \<Rightarrow> bool" where
  "py_isalnum c = (py_isdigit c \<or> py_isupper c \<or> py_islower c)"

text \<open>The class \<open>\w\<close> of the \<open>re\<close> module.\<close>

definition py_isword :: "char \<Rightarrow> bool" where
  "py_isword c = (py_isalnum c \<or> c = CHR ''_'')"

definition py_lower_char :: "char \<Rightarrow> char" where
  "py_lower_char c =
     (case map_of (zip ''ABCDEFGHIJKLMNOPQRSTUVWXYZ'' ''abcdefghijklmnopqrstuvwxyz'') c of
        Some l \<Rightarrow> l
      | None \<Rightarrow> c)"

definition py_lower :: "string \<Rightarrow> string" where
  "py_lower s = map py_lower_char s"

definition py_strip :: "string \<Rightarrow> string" where
  "py_strip s = rev (dropWhile py_isspace (rev (dropWhile py_isspace s)))"

text \<open>\<open>s.strip(chars)\<close>.\<close>

definition py_strip_chars :: "string \<Rightarrow> string \<Rightarrow> string" where
  "py_strip_chars cs s =
     rev (dropWhile (\<lambda>c. c \<in> set cs) (rev (dropWhile (\<lambda>c. c \<in> set cs) s)))"

definition py_startswith :: "string \<Rightarrow> string \<Rightarrow> bool" where
  "py_startswith s p = (take (length p) s = p)"

definition py_endswith :: "string \<Rightarrow> string \<Rightarrow> bool" where
  "py_endswith s p = (length p \<le> length s \<and> drop (length s - length p) s = p)"

text \<open>\<open>sub in s\<close>.\<close>

fun py_contains :: "string \<Rightarrow> string \<Rightarrow> bool" where
  "py_contains [] sub = (sub = [])"
| "py_contains (c # cs) sub = (py_startswith (c # cs) sub \<or> py_contains cs sub)"

text \<open>\<open>s.find(sub)\<close>; Python's \<open>-1\<close> is \<open>None\<close>.\<close>

fun py_find_from :: "nat \<Rightarrow> string \<Rightarrow> string \<Rightarrow> nat option" where
  "py_find_from i [] sub = (if sub = [] then Some i else None)"
| "py_find_from i (c # cs) sub =
     (if py_startswith (c # cs) sub then Some i else py_find_from (Suc i) cs sub)"

definition py_find :: "string \<Rightarrow> string \<Rightarrow> nat option" where
  "py_find s sub = py_find_from 0 s sub"

text \<open>\<open>s[i:j]\<close> for indices that are not negative.\<close>

definition py_slice :: "string \<Rightarrow> nat \<Rightarrow> nat \<Rightarrow> string" where
  "py_slice s i j = take (j - i) (drop i s)"

text \<open>
  \<open>s.split(sep)\<close> for a separator that is not empty: \<open>cur\<close> holds, reversed, the piece
  being read.
\<close>

fun py_split_aux :: "string \<Rightarrow> string \<Rightarrow> string \<Rightarrow> string list" where
  "py_split_aux sep cur [] = [rev cur]"
| "py_split_aux sep cur (c # cs) =
     (if sep \<noteq> [] \<and> py_startswith (c # cs) sep
      then rev cur # py_split_aux sep [] (drop (length sep - 1) cs)
      else py_split_aux sep (c # cur) cs)"

definition py_split :: "string \<Rightarrow> string \<Rightarrow> string list" where
  "py_split s sep = py_split_aux sep [] s"

text \<open>\<open>s.split(sep, 1)\<close>: at most one cut, at the first occurrence.\<close>

definition py_split1 :: "string \<Rightarrow> string \<Rightarrow> string list" where
  "py_split1 s sep =
     (case py_find s sep of
        None \<Rightarrow> [s]
      | Some i \<Rightarrow> [take i s, drop (i + length sep) s])"

text \<open>\<open>s.replace(old, new)\<close> for \<open>old\<close> not empty.\<close>

fun py_replace :: "string \<Rightarrow> string \<Rightarrow> string \<Rightarrow> string" where
  "py_replace [] old new = []"
| "py_replace (c # cs) old new =
     (if old \<noteq> [] \<and> py_startswith (c # cs) old
      then new @ py_replace (drop (length old - 1) cs) old new
      else c # py_replace cs old new)"

text \<open>\<open>sep.join(xs)\<close>.\<close>

fun py_join :: "string \<Rightarrow> string list \<Rightarrow> string" where
  "py_join sep [] = []"
| "py_join sep [x] = x"
| "py_join sep (x # y # ys) = x @ sep @ py_join sep (y # ys)"

text \<open>
  \<open>re.split(r"\r\n|\n|\r", text)\<close>: a carriage return followed by a line feed is one
  separator.
\<close>

fun re_split_lines :: "string \<Rightarrow> string \<Rightarrow> string list" where
  "re_split_lines cur [] = [rev cur]"
| "re_split_lines cur [c] =
     (if c = CHR 0x0A \<or> c = CHR 0x0D then [rev cur, []] else [rev (c # cur)])"
| "re_split_lines cur (c # d # cs) =
     (if c = CHR 0x0D \<and> d = CHR 0x0A then rev cur # re_split_lines [] cs
      else if c = CHR 0x0A \<or> c = CHR 0x0D then rev cur # re_split_lines [] (d # cs)
      else re_split_lines (c # cur) (d # cs))"

text \<open>\<open>[i for i, ch in enumerate(s) if ch == " "]\<close>.\<close>

fun space_indices_from :: "nat \<Rightarrow> string \<Rightarrow> nat list" where
  "space_indices_from i [] = []"
| "space_indices_from i (c # cs) =
     (if c = CHR '' '' then i # space_indices_from (Suc i) cs
      else space_indices_from (Suc i) cs)"

definition space_indices :: "string \<Rightarrow> nat list" where
  "space_indices s = space_indices_from 0 s"

section \<open>Regular expressions\<close>

text \<open>
  The patterns of the source are terms of \<open>rx\<close>, matched the way Python's \<open>re\<close> module
  matches them: by backtracking, the first alternative first, a greedy repetition the longest
  first and a lazy one the shortest first.  A state of the matcher is the text consumed so far
  (reversed), the text still to read and the groups captured (the latest binding first); the
  continuation \<open>k\<close> is the rest of the pattern, and \<open>None\<close> sends the matcher back to its
  last choice.  Repetition is over one character class, which is all the source's patterns
  use.
\<close>

datatype rx =
    Lit string
  | Cls "char \<Rightarrow> bool"
  | Cat rx rx
  | Alt rx rx
  | Opt rx
  | Star "char \<Rightarrow> bool"
  | Plus "char \<Rightarrow> bool"
  | PlusLazy "char \<Rightarrow> bool"
  | Rep nat "char \<Rightarrow> bool"
  | Grp nat rx
  | Eos
  | WordB
  | NotBehind string
  | NotAhead string

type_synonym mstate = "string \<times> string \<times> (nat \<times> string) list"

primrec star_greedy :: "(char \<Rightarrow> bool) \<Rightarrow> string \<Rightarrow> string \<Rightarrow> (nat \<times> string) list
    \<Rightarrow> (mstate \<Rightarrow> 'a option) \<Rightarrow> 'a option" where
  "star_greedy p [] b g k = k (b, [], g)"
| "star_greedy p (c # cs) b g k =
     (if p c
      then (case star_greedy p cs (c # b) g k of
              Some v \<Rightarrow> Some v
            | None \<Rightarrow> k (b, c # cs, g))
      else k (b, c # cs, g))"

primrec star_lazy :: "(char \<Rightarrow> bool) \<Rightarrow> string \<Rightarrow> string \<Rightarrow> (nat \<times> string) list
    \<Rightarrow> (mstate \<Rightarrow> 'a option) \<Rightarrow> 'a option" where
  "star_lazy p [] b g k = k (b, [], g)"
| "star_lazy p (c # cs) b g k =
     (case k (b, c # cs, g) of
        Some v \<Rightarrow> Some v
      | None \<Rightarrow> if p c then star_lazy p cs (c # b) g k else None)"

primrec rep_exact :: "nat \<Rightarrow> (char \<Rightarrow> bool) \<Rightarrow> string \<Rightarrow> string \<Rightarrow> (string \<times> string) option"
  where
  "rep_exact 0 p b r = Some (b, r)"
| "rep_exact (Suc n) p b r =
     (case r of
        [] \<Rightarrow> None
      | c # cs \<Rightarrow> if p c then rep_exact n p (c # b) cs else None)"

text \<open>\<open>\b\<close>: exactly one of the characters before and after the position is a word character.\<close>

definition at_word_boundary :: "string \<Rightarrow> string \<Rightarrow> bool" where
  "at_word_boundary b r =
     ((case b of [] \<Rightarrow> False | c # _ \<Rightarrow> py_isword c)
        \<noteq> (case r of [] \<Rightarrow> False | c # _ \<Rightarrow> py_isword c))"

fun rx_match :: "rx \<Rightarrow> mstate \<Rightarrow> (mstate \<Rightarrow> 'a option) \<Rightarrow> 'a option" where
  "rx_match (Lit s) (b, r, g) k =
     (if py_startswith r s then k (rev s @ b, drop (length s) r, g) else None)"
| "rx_match (Cls p) (b, r, g) k =
     (case r of [] \<Rightarrow> None | c # cs \<Rightarrow> if p c then k (c # b, cs, g) else None)"
| "rx_match (Cat r1 r2) st k = rx_match r1 st (\<lambda>st'. rx_match r2 st' k)"
| "rx_match (Alt r1 r2) st k =
     (case rx_match r1 st k of Some v \<Rightarrow> Some v | None \<Rightarrow> rx_match r2 st k)"
| "rx_match (Opt r1) st k =
     (case rx_match r1 st k of Some v \<Rightarrow> Some v | None \<Rightarrow> k st)"
| "rx_match (Star p) (b, r, g) k = star_greedy p r b g k"
| "rx_match (Plus p) (b, r, g) k =
     (case r of [] \<Rightarrow> None | c # cs \<Rightarrow> if p c then star_greedy p cs (c # b) g k else None)"
| "rx_match (PlusLazy p) (b, r, g) k =
     (case r of [] \<Rightarrow> None | c # cs \<Rightarrow> if p c then star_lazy p cs (c # b) g k else None)"
| "rx_match (Rep n p) (b, r, g) k =
     (case rep_exact n p b r of None \<Rightarrow> None | Some (b', r') \<Rightarrow> k (b', r', g))"
| "rx_match (Grp n r1) (b, r, g) k =
     rx_match r1 (b, r, g)
       (\<lambda>(b', r', g'). k (b', r', (n, rev (take (length b' - length b) b')) # g'))"
| "rx_match Eos (b, r, g) k = (if r = [] \<or> r = NL then k (b, r, g) else None)"
| "rx_match WordB (b, r, g) k = (if at_word_boundary b r then k (b, r, g) else None)"
| "rx_match (NotBehind s) (b, r, g) k =
     (if py_startswith b (rev s) then None else k (b, r, g))"
| "rx_match (NotAhead s) (b, r, g) k =
     (if py_startswith r s then None else k (b, r, g))"

text \<open>\<open>pattern.match(s)\<close>: the groups of the first way the pattern matches at the start.\<close>

definition re_match :: "rx \<Rightarrow> string \<Rightarrow> (nat \<times> string) list option" where
  "re_match r s = rx_match r ([], s, []) (\<lambda>(b, r', g). Some g)"

text \<open>\<open>pattern.fullmatch(s)\<close>: the match has to end where the string ends.\<close>

definition re_fullmatch :: "rx \<Rightarrow> string \<Rightarrow> bool" where
  "re_fullmatch r s =
     (rx_match r ([], s, []) (\<lambda>(b, r', g). if r' = [] then Some g else None) \<noteq> None)"

text \<open>\<open>match.group(n)\<close>; \<open>None\<close> for a group that took no part in the match.\<close>

definition group :: "(nat \<times> string) list \<Rightarrow> nat \<Rightarrow> string option" where
  "group g n = map_of g n"

text \<open>
  One step of a scan for the matches that do not overlap (\<open>findall\<close>, \<open>sub\<close>): the text
  matched at this position and the state after it.  None of the source's patterns matches
  the empty string; a match that consumes nothing counts as no match here.
\<close>

definition match_here :: "rx \<Rightarrow> string \<Rightarrow> string \<Rightarrow> (string \<times> string \<times> string) option" where
  "match_here r b s =
     (case rx_match r (b, s, []) (\<lambda>(b', r', g). Some (b', r')) of
        None \<Rightarrow> None
      | Some (b', r') \<Rightarrow>
          if length r' < length s
          then Some (rev (take (length b' - length b) b'), b', r')
          else None)"

function re_findall_from :: "rx \<Rightarrow> string \<Rightarrow> string \<Rightarrow> string list" where
  "re_findall_from r b [] = []"
| "re_findall_from r b (c # cs) =
     (case match_here r b (c # cs) of
        Some (m, b', r') \<Rightarrow> m # re_findall_from r b' r'
      | None \<Rightarrow> re_findall_from r (c # b) cs)"
  by pat_completeness auto
termination
  by (relation "measure (\<lambda>(r, b, s). length s)")
     (auto simp: match_here_def split: option.splits if_splits)

definition re_findall :: "rx \<Rightarrow> string \<Rightarrow> string list" where
  "re_findall r s = re_findall_from r [] s"

function re_sub_from :: "rx \<Rightarrow> string \<Rightarrow> string \<Rightarrow> string \<Rightarrow> string" where
  "re_sub_from r repl b [] = []"
| "re_sub_from r repl b (c # cs) =
     (case match_here r b (c # cs) of
        Some (m, b', r') \<Rightarrow> repl @ re_sub_from r repl b' r'
      | None \<Rightarrow> c # re_sub_from r repl (c # b) cs)"
  by pat_completeness auto
termination
  by (relation "measure (\<lambda>(r, repl, b, s). length s)")
     (auto simp: match_here_def split: option.splits if_splits)

text \<open>\<open>pattern.sub(repl, s)\<close>.\<close>

definition re_sub :: "rx \<Rightarrow> string \<Rightarrow> string \<Rightarrow> string" where
  "re_sub r repl s = re_sub_from r repl [] s"

text \<open>A sequence and an ordered alternation of several patterns.\<close>

fun cats :: "rx list \<Rightarrow> rx" where
  "cats [] = Lit []"
| "cats [r] = r"
| "cats (r # rs) = Cat r (cats rs)"

fun alts :: "rx list \<Rightarrow> rx" where
  "alts [] = Lit []"
| "alts [r] = r"
| "alts (r # rs) = Alt r (alts rs)"

section \<open>The data model (models.py)\<close>

datatype ResponseSourceType = STATIC | CSV | DATABASE

datatype CalculationType =
  NONE | QUERY | CASE | CONSTANT | LOOKUP | MATH | CONCAT
  | AGE_FROM_DATE | AGE_AT_DATE | DATE_OFFSET | DATE_DIFF

text \<open>
  The small dataclasses are datatypes with one constructor; a selector carries the class's
  prefix where the field's name is used by another class too, or is a keyword of the
  theory language (\<open>Filter.value\<close>, \<open>CalculationPart.type\<close>).
\<close>

datatype Filter =
  Filter (column: string) (filter_value: string) (filter_operator: string)

datatype CalculationParameter =
  CalculationParameter (param_name: string) (param_fieldName: string)

datatype CalculationPart =
  CalculationPart
    (part_type: CalculationType)
    (constantValue: string)
    (lookupField: string)
    (querySql: string)
    (queryParameters: "CalculationParameter list")
    (mathOperator: string)
    (parts: "CalculationPart list")
    (concatSeparator: string)

datatype CaseCondition =
  CaseCondition
    (case_field: string)
    (case_operator: string)
    (case_value: string)
    (case_result: "CalculationPart option")

record Question =
  fieldName :: string
  questionType :: string
  fieldType :: string
  questionText :: string
  maxCharacters :: string
  responses :: string
  responseSourceType :: ResponseSourceType
  responseSourceFile :: string
  responseSourceTable :: string
  responseFilters :: "Filter list"
  responseDisplayColumn :: string
  responseValueColumn :: string
  responseDistinct :: "bool option"
  responseEmptyMessage :: string
  responseDontKnowValue :: string
  responseDontKnowLabel :: string
  responseNotInListValue :: string
  responseNotInListLabel :: string
  calculationType :: CalculationType
  calculationQuerySql :: string
  calculationQueryParameters :: "CalculationParameter list"
  calculationCaseConditions :: "CaseCondition list"
  calculationCaseElse :: "CalculationPart option"
  calculationConstantValue :: string
  calculationLookupField :: string
  calculationMathOperator :: string
  calculationMathParts :: "CalculationPart list"
  calculationConcatSeparator :: string
  calculationConcatParts :: "CalculationPart list"
  calculationUnit :: string
  lowerRange :: string
  upperRange :: string
  logicChecks :: "string list"
  uniqueCheckMessage :: string
  dontKnow :: string
  refuse :: string
  na :: string
  skip :: string
  mask :: string

text \<open>\<open>Question()\<close>: every field at its default.\<close>

definition new_Question :: Question where
  "new_Question = \<lparr>
     fieldName = [], questionType = [], fieldType = [], questionText = [],
     maxCharacters = [], responses = [],
     responseSourceType = STATIC, responseSourceFile = [], responseSourceTable = [],
     responseFilters = [], responseDisplayColumn = [], responseValueColumn = [],
     responseDistinct = None, responseEmptyMessage = [],
     responseDontKnowValue = [], responseDontKnowLabel = [],
     responseNotInListValue = [], responseNotInListLabel = [],
     calculationType = NONE, calculationQuerySql = [], calculationQueryParameters = [],
     calculationCaseConditions = [], calculationCaseElse = None,
     calculationConstantValue = [], calculationLookupField = [],
     calculationMathOperator = [], calculationMathParts = [],
     calculationConcatSeparator = [], calculationConcatParts = [], calculationUnit = [],
     lowerRange = [], upperRange = [], logicChecks = [], uniqueCheckMessage = [],
     dontKnow = [], refuse = [], na = [], skip = [], mask = [] \<rparr>"

section \<open>The reader (excel\_reader.py)\<close>

text \<open>
  The state of an \<open>ExcelReader\<close> object.  Every method that logs is a function from the
  state to the new state.
\<close>

record ExcelReader =
  logstring :: "string list"
  errorsEncountered :: bool
  worksheetErrorsEncountered :: bool
  questionList :: "Question list"

text \<open>\<open>ExcelReader()\<close>.\<close>

definition new_ExcelReader :: ExcelReader where
  "new_ExcelReader = \<lparr> logstring = [], errorsEncountered = False,
     worksheetErrorsEncountered = False, questionList = [] \<rparr>"

text \<open>\<open>_error\<close>: both flags are set and the message is logged.\<close>

definition reader_error :: "ExcelReader \<Rightarrow> string \<Rightarrow> ExcelReader" where
  "reader_error st message =
     st\<lparr> errorsEncountered := True, worksheetErrorsEncountered := True,
         logstring := logstring st @ [message] \<rparr>"

text \<open>
  The worksheet is openpyxl's, a collaborator outside the repository.  The reader sees it
  through three methods only, which are the fields of the model: \<open>cell_text ws row col\<close> is
  \<open>_to_str(ws.cell(row, col).value)\<close> and \<open>cell_merged ws row col\<close> is
  \<open>_is_cell_merged(ws, row, col)\<close>.
\<close>

record Worksheet =
  title :: string
  max_row :: nat
  cell_text :: "nat \<Rightarrow> nat \<Rightarrow> string"
  cell_merged :: "nat \<Rightarrow> nat \<Rightarrow> bool"

definition get_cell_trim :: "Worksheet \<Rightarrow> nat \<Rightarrow> nat \<Rightarrow> string" where
  "get_cell_trim ws row col = py_strip (cell_text ws row col)"

definition get_cell_raw :: "Worksheet \<Rightarrow> nat \<Rightarrow> nat \<Rightarrow> string" where
  "get_cell_raw ws row col = cell_text ws row col"

definition NUMBER_OF_COLUMNS :: nat where
  "NUMBER_OF_COLUMNS = 14"

definition COLUMN_NAMES :: "string list" where
  "COLUMN_NAMES =
     [''FieldName'', ''QuestionType'', ''FieldType'', ''QuestionText'', ''MaxCharacters'',
      ''Responses'', ''LowerRange'', ''UpperRange'', ''LogicCheck'', ''DontKnow'',
      ''Refuse'', ''NA'', ''Skip'', ''Comments'']"

text \<open>The patterns of the class.  \<open>.\<close> is any character but a line feed.\<close>

definition dot :: "char \<Rightarrow> bool" where
  "dot c = (c \<noteq> CHR 0x0A)"

definition NUMERIC_ONLY_RE :: rx where
  "NUMERIC_ONLY_RE = cats [Plus py_isdigit, Eos]"

definition DECIMAL_RE :: rx where
  "DECIMAL_RE =
     cats [Plus py_isdigit, Opt (Grp 1 (cats [Lit ''.'', Plus py_isdigit])), Eos]"

definition DATE_RANGE_RE :: rx where
  "DATE_RANGE_RE =
     cats [Grp 1 (Cls (\<lambda>c. c \<in> set ''+-'')), Grp 2 (Plus py_isdigit),
           Grp 3 (Cls (\<lambda>c. c \<in> set ''dwmy'')), Eos]"

definition HARDCODED_DATE_RE :: rx where
  "HARDCODED_DATE_RE =
     cats [Rep 4 py_isdigit, Lit ''-'', Rep 2 py_isdigit, Lit ''-'', Rep 2 py_isdigit, Eos]"

text \<open>\<open>\b[a-z_][a-z0-9_]*\b\<close> with \<open>re.IGNORECASE\<close>.\<close>

definition FIELD_NAME_RE :: rx where
  "FIELD_NAME_RE =
     cats [WordB,
           Cls (\<lambda>c. py_islower c \<or> py_isupper c \<or> c = CHR ''_''),
           Star (\<lambda>c. py_islower c \<or> py_isupper c \<or> py_isdigit c \<or> c = CHR ''_''),
           WordB]"

definition QUOTED_STRING_RE :: rx where
  "QUOTED_STRING_RE = cats [Lit SQ, Star (\<lambda>c. c \<noteq> CHR 0x27), Lit SQ]"

text \<open>\<open>^(\w+)\s*(?:(=|!=|<>|>|<|>=|<=)\s*)?(.+)$\<close>, the alternatives in the source's order.\<close>

definition FILTER_MATCH_RE :: rx where
  "FILTER_MATCH_RE =
     cats [Grp 1 (Plus py_isword),
           Star py_isspace,
           Opt (cats [Grp 2 (alts [Lit ''='', Lit ''!='', Lit ''<>'', Lit ''>'', Lit ''<'',
                                    Lit ''>='', Lit ''<='']),
                      Star py_isspace]),
           Grp 3 (Plus dot),
           Eos]"

text \<open>\<open>^(@?\w+)\s*=\s*(\w+)$\<close>.\<close>

definition PARAMETER_RE :: rx where
  "PARAMETER_RE =
     cats [Grp 1 (cats [Opt (Lit ''@''), Plus py_isword]),
           Star py_isspace, Lit ''='', Star py_isspace,
           Grp 2 (Plus py_isword), Eos]"

text \<open>\<open>^(\w+)\s+(=|!=|<>|>=|<=|>|<)\s+(.+?)\s*=>\s*(.+)$\<close>.\<close>

definition WHEN_CONDITION_RE :: rx where
  "WHEN_CONDITION_RE =
     cats [Grp 1 (Plus py_isword),
           Plus py_isspace,
           Grp 2 (alts [Lit ''='', Lit ''!='', Lit ''<>'', Lit ''>='', Lit ''<='',
                        Lit ''>'', Lit ''<'']),
           Plus py_isspace,
           Grp 3 (PlusLazy dot),
           Star py_isspace, Lit ''=>'', Star py_isspace,
           Grp 4 (Plus dot),
           Eos]"

definition VALID_QUESTION_TYPES :: "string set" where
  "VALID_QUESTION_TYPES =
     {''radio'', ''combobox'', ''checkbox'', ''text'', ''date'', ''information'',
      ''automatic'', ''button''}"

definition VALID_FIELD_TYPES :: "string set" where
  "VALID_FIELD_TYPES =
     {''text'', ''datetime'', ''date'', ''phone_num'', ''integer'', ''text_integer'',
      ''text_decimal'', ''text_id'', ''n/a'', ''hourmin''}"

definition BUILT_IN_AUTO_FIELDS :: "string set" where
  "BUILT_IN_AUTO_FIELDS =
     {''starttime'', ''stoptime'', ''uniqueid'', ''swver'', ''survey_id'', ''lastmod''}"

definition LOGIC_KEYWORDS :: "string set" where
  "LOGIC_KEYWORDS = {''and'', ''or'', ''not''}"

text \<open>\<open>_split_lines\<close>: the lines that are not empty.\<close>

definition split_lines :: "string \<Rightarrow> string list" where
  "split_lines text_in = filter (\<lambda>line. line \<noteq> []) (re_split_lines [] text_in)"

text \<open>
  The f-string prefix \<open>FieldName '{fieldname}' in worksheet '{worksheet}'\<close> that most
  diagnostics of a row share.
\<close>

definition in_worksheet :: "string \<Rightarrow> string \<Rightarrow> string" where
  "in_worksheet fieldname worksheet =
     ''FieldName '' @ quoted fieldname @ '' in worksheet '' @ quoted worksheet"

definition in_table :: "string \<Rightarrow> string \<Rightarrow> string" where
  "in_table fieldname worksheet =
     ''FieldName '' @ quoted fieldname @ '' in table '' @ quoted worksheet"

subsection \<open>The shape of a field name\<close>

definition msg_empty_fieldname :: "string \<Rightarrow> string" where
  "msg_empty_fieldname worksheet =
     ''ERROR - FieldName: '' @ worksheet @ '' has an empty FieldName''"

definition msg_starts_with_number :: "string \<Rightarrow> string \<Rightarrow> string" where
  "msg_starts_with_number worksheet fieldname =
     ''ERROR - FieldName: '' @ worksheet
       @ '' has a FieldName that starts with a number: '' @ fieldname"

definition msg_invalid_fieldname :: "string \<Rightarrow> string \<Rightarrow> string" where
  "msg_invalid_fieldname worksheet fieldname =
     ''ERROR - FieldName: '' @ worksheet
       @ '' has an invalid FieldName.  Only letters, digits, and underscores are allowed: ''
       @ fieldname"

definition msg_not_lowercase :: "string \<Rightarrow> string \<Rightarrow> string" where
  "msg_not_lowercase worksheet fieldname =
     ''ERROR - FieldName: '' @ worksheet
       @ '' has a FieldName that is not all lowercase: '' @ fieldname"

definition msg_starts_with_underscore :: "string \<Rightarrow> string \<Rightarrow> string" where
  "msg_starts_with_underscore worksheet fieldname =
     ''ERROR - FieldName: '' @ worksheet
       @ '' has a FieldName that starts with an underscore: '' @ fieldname"

definition msg_contains_space :: "string \<Rightarrow> string \<Rightarrow> string" where
  "msg_contains_space worksheet fieldname =
     ''ERROR - FieldName: '' @ worksheet
       @ '' has a FieldName that contains a space: '' @ fieldname"

text \<open>\<open>_check_field_name\<close>, an \<open>if\<close>/\<open>elif\<close> chain in the order of the source.\<close>

definition check_field_name :: "string \<Rightarrow> string \<Rightarrow> ExcelReader \<Rightarrow> ExcelReader" where
  "check_field_name worksheet fieldname st =
     (case fieldname of
        [] \<Rightarrow> reader_error st (msg_empty_fieldname worksheet)
      | c # cs \<Rightarrow>
          if py_isdigit c then reader_error st (msg_starts_with_number worksheet fieldname)
          else if list_ex (\<lambda>c. \<not> py_isalnum c \<and> c \<noteq> CHR ''_'') fieldname
            then reader_error st (msg_invalid_fieldname worksheet fieldname)
          else if fieldname \<noteq> py_lower fieldname
            then reader_error st (msg_not_lowercase worksheet fieldname)
          else if c = CHR ''_''
            then reader_error st (msg_starts_with_underscore worksheet fieldname)
          else if py_contains fieldname '' ''
            then reader_error st (msg_contains_space worksheet fieldname)
          else st)"

subsection \<open>The whole-sheet checks on MaxCharacters and duplicates\<close>

definition msg_needs_max_characters :: "string \<Rightarrow> string \<Rightarrow> string" where
  "msg_needs_max_characters worksheet fieldname =
     ''ERROR - MaxCharacters: In worksheet '' @ quoted worksheet
       @ '', MaxCharacters for FieldName '' @ quoted fieldname @ '' needs a value''"

text \<open>\<open>_check_required_max_characters\<close>: the loop over \<open>self.questionList\<close>.\<close>

definition check_required_max_characters :: "string \<Rightarrow> ExcelReader \<Rightarrow> ExcelReader" where
  "check_required_max_characters worksheet st =
     foldl (\<lambda>st question.
        if fieldType question \<in> {''text'', ''text_integer'', ''phone_num''}
           \<and> questionType question \<notin> {''automatic'', ''checkbox'', ''combobox''}
           \<and> maxCharacters question = ''-9''
        then reader_error st (msg_needs_max_characters worksheet (fieldName question))
        else st) st (questionList st)"

subsection \<open>The checks of one row\<close>

text \<open>\<open>int(s)\<close> for a string of decimal digits.\<close>

definition py_int :: "string \<Rightarrow> nat" where
  "py_int s = foldl (\<lambda>n c. 10 * n + (py_code c - 48)) 0 s"

text \<open>\<open>_check_max_chars_value\<close>.\<close>

definition check_max_chars_value :: "string \<Rightarrow> string \<Rightarrow> string \<Rightarrow> ExcelReader \<Rightarrow> ExcelReader"
  where
  "check_max_chars_value worksheet max_chars fieldname st =
     (let numeric = (if py_startswith max_chars ''='' then drop 1 max_chars else max_chars) in
      if \<not> re_fullmatch NUMERIC_ONLY_RE numeric
      then reader_error st
             (''ERROR - MaxCharacters: '' @ in_worksheet fieldname worksheet
                @ '' has a non-numeric value for MaxCharacters: '' @ max_chars)
      else let num = py_int numeric in
        if num < 1 \<or> num > 2000
        then reader_error st
               (''ERROR - MaxCharacters: '' @ in_worksheet fieldname worksheet
                  @ '' has a MaxCharacters value that is out of range (1 to 2000): ''
                  @ max_chars)
        else st)"

definition msg_invalid_static :: "string \<Rightarrow> string \<Rightarrow> string" where
  "msg_invalid_static fieldname worksheet =
     ''ERROR - Responses: Invalid static radio button options for '' @ quoted fieldname
       @ '' in table '' @ quoted worksheet @ ''. ''"

text \<open>
  The loop over the static responses of \<open>_check_question_field_type\<close>; every diagnostic
  returns from the method, so the responses after it are not looked at.
\<close>

fun check_static_responses ::
  "string \<Rightarrow> string \<Rightarrow> string list \<Rightarrow> string list \<Rightarrow> ExcelReader \<Rightarrow> ExcelReader" where
  "check_static_responses worksheet fieldname seen [] st = st"
| "check_static_responses worksheet fieldname seen (response # rest) st =
     (case py_find response '':'' of
        None \<Rightarrow>
          reader_error st
            (msg_invalid_static fieldname worksheet
               @ ''Expected format 'number:Statement', found '' @ quoted response @ ''.'')
      | Some index \<Rightarrow>
          if length (py_split response '':'') \<noteq> 2
          then reader_error st
                 (msg_invalid_static fieldname worksheet
                    @ ''Expected format 'number:Statement', found '' @ quoted response @ ''.'')
          else let seen' = seen @ [take index response];
                   duplicates = sort (remdups (filter (\<lambda>k. count_list seen' k > 1) seen'))
            in
            if \<not> distinct seen'
            then reader_error st
                   (''ERROR - Responses: The Responses for '' @ in_table fieldname worksheet
                      @ '' has duplicates '' @ py_join '','' duplicates)
            else if py_startswith response '' ''
            then reader_error st
                   (msg_invalid_static fieldname worksheet @ ''Please remove leading spaces.'')
            else if py_contains response '': ''
            then reader_error st
                   (msg_invalid_static fieldname worksheet
                      @ ''Please remove space after the colon (:) for static responses.'')
            else check_static_responses worksheet fieldname seen' rest st)"

text \<open>\<open>_check_question_field_type\<close>.\<close>

definition check_question_field_type :: "Question \<Rightarrow> string \<Rightarrow> ExcelReader \<Rightarrow> ExcelReader"
  where
  "check_question_field_type q worksheet st =
     (let questiontype = questionType q; fieldtype = fieldType q; fieldname = fieldName q;
          st1 = (if questiontype \<notin> VALID_QUESTION_TYPES
                 then reader_error st
                        (''ERROR - QuestionType: The QuestionType '' @ questiontype
                           @ '' for FieldName '' @ quoted fieldname @ '' in table ''
                           @ quoted worksheet @ '' is not among the predefined list.'')
                 else st);
          st2 = (if fieldtype \<notin> VALID_FIELD_TYPES
                 then reader_error st1
                        (''ERROR - FieldType: The FieldType '' @ quoted fieldtype
                           @ '' for '' @ in_table fieldname worksheet
                           @ '' is not among the predefined list.'')
                 else st1);
          st3 = (if questiontype = ''radio'' \<and> fieldtype \<noteq> ''integer''
                 then reader_error st2
                        (''ERROR - FieldType: The FieldType for '' @ in_table fieldname worksheet
                           @ '' must be integer when the QuestionType is 'radio'.'')
                 else st2);
          st4 = (if questiontype = ''checkbox'' \<and> fieldtype \<noteq> ''text''
                 then reader_error st3
                        (''ERROR - FieldType: The FieldType for '' @ in_table fieldname worksheet
                           @ '' must be text when the QuestionType is 'checkbox'.'')
                 else st3);
          st5 = (if questiontype = ''date'' \<and> fieldtype \<notin> {''date'', ''datetime''}
                 then reader_error st4
                        (''ERROR - FieldType: The FieldType for '' @ in_table fieldname worksheet
                           @ '' must be date when the QuestionType is 'date' or 'datetime'.'')
                 else st4)
      in
      if questiontype \<in> {''radio'', ''checkbox''} \<and> responseSourceType q = STATIC
         \<and> responses q \<noteq> []
      then check_static_responses worksheet fieldname [] (split_lines (responses q)) st5
      else st5)"

text \<open>\<open>_check_numeric_range\<close>.\<close>

definition check_numeric_range ::
  "string \<Rightarrow> string \<Rightarrow> string \<Rightarrow> string \<Rightarrow> ExcelReader \<Rightarrow> ExcelReader" where
  "check_numeric_range worksheet v fieldname range_name st =
     (if \<not> re_fullmatch DECIMAL_RE v
      then reader_error st
             (''ERROR - '' @ range_name @ '': '' @ in_worksheet fieldname worksheet
                @ '' has a non-numeric value for '' @ range_name @ '': '' @ v)
      else st)"

text \<open>
  \<open>datetime.strptime(v, "%Y-%m-%d")\<close> on a string of the shape \<open>dddd-dd-dd\<close>: it raises
  \<open>ValueError\<close> unless the three numbers are a date of the proleptic Gregorian calendar
  (years 1 to 9999).  The library is not part of the repository.
\<close>

definition leap_year :: "nat \<Rightarrow> bool" where
  "leap_year y = (y mod 4 = 0 \<and> (y mod 100 \<noteq> 0 \<or> y mod 400 = 0))"

definition days_in_month :: "nat \<Rightarrow> nat \<Rightarrow> nat" where
  "days_in_month y m =
     (if m = 2 then (if leap_year y then 29 else 28)
      else if m \<in> {4, 6, 9, 11} then 30 else 31)"

definition strptime_ok :: "string \<Rightarrow> bool" where
  "strptime_ok v =
     (let y = py_int (py_slice v 0 4); m = py_int (py_slice v 5 7); d = py_int (py_slice v 8 10)
      in 1 \<le> y \<and> 1 \<le> m \<and> m \<le> 12 \<and> 1 \<le> d \<and> d \<le> days_in_month y m)"

text \<open>\<open>_check_date_range\<close>.\<close>

definition check_date_range ::
  "string \<Rightarrow> string \<Rightarrow> string \<Rightarrow> string \<Rightarrow> ExcelReader \<Rightarrow> ExcelReader" where
  "check_date_range worksheet v fieldname range_name st =
     (if v = ''-9''
      then reader_error st
             (''ERROR - '' @ range_name @ '': '' @ in_worksheet fieldname worksheet
                @ '' has a missing value for '' @ range_name)
      else if v \<in> {''0'', ''+0d'', ''-0d''} then st
      else if re_fullmatch DATE_RANGE_RE v then st
      else if re_fullmatch HARDCODED_DATE_RE v
      then (if strptime_ok v then st
            else reader_error st
                   (''ERROR - '' @ range_name @ '': '' @ in_worksheet fieldname worksheet
                      @ '' has an invalid date value: '' @ v))
      else reader_error st
             (''ERROR - '' @ range_name @ '': '' @ in_worksheet fieldname worksheet
                @ '' has an invalid format for '' @ range_name @ '': '' @ v))"

text \<open>
  \<open>_check_logic_check_syntax\<close>.  \<open>split(";", 1)\<close> of a string with a semicolon has two
  parts, so the source's test on their number never fails.
\<close>

definition check_logic_check_syntax ::
  "string \<Rightarrow> string \<Rightarrow> string \<Rightarrow> ExcelReader \<Rightarrow> ExcelReader" where
  "check_logic_check_syntax worksheet logic_check fieldname st =
     (if \<not> py_contains logic_check '';''
      then reader_error st
             (''ERROR - LogicCheck: '' @ in_worksheet fieldname worksheet
                @ '' has invalid syntax for LogicCheck (missing semicolon): '' @ logic_check)
      else let ps = py_split1 logic_check '';'' in
        if length ps \<noteq> 2
        then reader_error st
               (''ERROR - LogicCheck: '' @ in_worksheet fieldname worksheet
                  @ '' has invalid syntax for LogicCheck: '' @ logic_check)
        else let expression = py_strip (ps ! 0); message = py_strip (ps ! 1) in
          if \<not> (py_startswith message SQ \<and> py_endswith message SQ)
          then reader_error st
                 (''ERROR - LogicCheck: '' @ in_worksheet fieldname worksheet
                    @ '' has invalid syntax for LogicCheck (message must be in single quotes): ''
                    @ logic_check)
          else if \<not> list_ex (\<lambda>op. py_contains expression op)
                       [''='', ''!='', ''<>'', ''>'', ''>='', ''<'', ''<='', ''and'', ''or'']
          then reader_error st
                 (''ERROR - LogicCheck: '' @ in_worksheet fieldname worksheet
                    @ '' has invalid syntax for LogicCheck (no operator found): ''
                    @ logic_check)
          else st)"

text \<open>\<open>_check_special_button\<close>.\<close>

definition check_special_button ::
  "string \<Rightarrow> string \<Rightarrow> string \<Rightarrow> string \<Rightarrow> ExcelReader \<Rightarrow> ExcelReader" where
  "check_special_button worksheet v fieldname button_name st =
     (if v \<notin> {''True'', ''False''}
      then reader_error st
             (''ERROR: - '' @ button_name @ '' '' @ in_worksheet fieldname worksheet
                @ '' has an invalid value for '' @ quoted button_name @ '': '' @ v)
      else st)"

definition msg_skip_syntax :: "string \<Rightarrow> string \<Rightarrow> string \<Rightarrow> string" where
  "msg_skip_syntax fieldname worksheet skip_line =
     ''ERROR - Skip: '' @ in_worksheet fieldname worksheet
       @ '' has invalid syntax for Skip: '' @ skip_line"

definition msg_skip_condition :: "string \<Rightarrow> string \<Rightarrow> string \<Rightarrow> string" where
  "msg_skip_condition fieldname worksheet skip_line =
     ''ERROR - Skip: '' @ in_worksheet fieldname worksheet
       @ '' has invalid syntax for LogicCheck: '' @ skip_line"

text \<open>
  The loop of \<open>_check_skip_syntax\<close> over the lines of a skip cell.  Every diagnostic
  returns from the method: the lines after the first bad one are not looked at.
  \<open>skip[: skip.find(":")]\<close> is read only when the line has a colon.
\<close>

fun check_skip_lines :: "string \<Rightarrow> string \<Rightarrow> string list \<Rightarrow> ExcelReader \<Rightarrow> ExcelReader" where
  "check_skip_lines worksheet fieldname [] st = st"
| "check_skip_lines worksheet fieldname (skip_line # rest) st =
     (case py_find skip_line '':'' of
        None \<Rightarrow> reader_error st (msg_skip_syntax fieldname worksheet skip_line)
      | Some colon \<Rightarrow>
          let skip_type = (if take colon skip_line = ''preskip'' then ''preskip''
                           else ''postskip'');
              ps = py_split skip_line '','';
              len_skip = (if skip_type = ''postskip'' then 13 else 12 :: nat);
              logic_section = ps ! 0;
              logic_string = py_split logic_section '':'';
              logic_tokens = py_split logic_section '' '';
              sp = space_indices skip_line;
              fieldname_to_check = py_slice skip_line len_skip (sp ! 2);
              condition = py_slice skip_line (sp ! 2 + 1) (sp ! 3)
          in
          if skip_type \<notin> {''preskip'', ''postskip''}
            then reader_error st (msg_skip_syntax fieldname worksheet skip_line)
          else if length ps \<noteq> 2
            then reader_error st (msg_skip_syntax fieldname worksheet skip_line)
          else if length logic_string \<noteq> 2
            then reader_error st (msg_skip_syntax fieldname worksheet skip_line)
          else if length logic_tokens \<noteq> 5 \<and> \<not> py_contains logic_section ''does not contain''
            then reader_error st (msg_skip_syntax fieldname worksheet skip_line)
          else if length logic_tokens \<noteq> 7 \<and> py_contains logic_section ''does not contain''
            then reader_error st (msg_skip_syntax fieldname worksheet skip_line)
          else if length sp < 4
            then reader_error st (msg_skip_syntax fieldname worksheet skip_line)
          else if py_contains fieldname_to_check '' ''
            then reader_error st (msg_skip_syntax fieldname worksheet skip_line)
          else if \<not> py_contains logic_section ''does not contain''
                  \<and> condition \<notin> {''='', ''>'', ''>='', ''<'', ''<='', ''<>'', SQ @ ''contains'' @ SQ}
            then reader_error st (msg_skip_condition fieldname worksheet skip_line)
          else check_skip_lines worksheet fieldname rest st)"

text \<open>\<open>_check_skip_syntax\<close>.\<close>

definition check_skip_syntax :: "string \<Rightarrow> string \<Rightarrow> string \<Rightarrow> ExcelReader \<Rightarrow> ExcelReader" where
  "check_skip_syntax worksheet skip_text fieldname st =
     check_skip_lines worksheet fieldname (split_lines skip_text) st"

subsection \<open>The whole-sheet checks on references\<close>

text \<open>
  \<open>{q.fieldName: i for i, q in enumerate(self.questionList)}\<close>: a name that occurs more
  than once keeps its last position.
\<close>

definition field_index :: "Question list \<Rightarrow> string \<Rightarrow> nat option" where
  "field_index qs = map_of (rev (zip (map fieldName qs) [0 ..< length qs]))"

definition msg_logic_after :: "string \<Rightarrow> string \<Rightarrow> string \<Rightarrow> string" where
  "msg_logic_after worksheet cur_field ref =
     ''ERROR - LogicCheck: In worksheet '' @ quoted worksheet
       @ '', the LogicCheck for FieldName '' @ quoted cur_field
       @ '' uses a FieldName AFTER the current question: '' @ ref"

definition msg_logic_nonexistent :: "string \<Rightarrow> string \<Rightarrow> string \<Rightarrow> string" where
  "msg_logic_nonexistent worksheet cur_field ref =
     ''ERROR - LogicCheck: In worksheet '' @ quoted worksheet
       @ '', the LogicCheck for FieldName '' @ quoted cur_field
       @ '' uses a nonexistent FieldName: '' @ ref"

text \<open>
  The identifiers a logic check refers to, as the list \<open>matches\<close> filtered by
  \<open>m.lower() not in LOGIC_KEYWORDS\<close>; the source makes a set of it.
\<close>

definition logic_references :: "string \<Rightarrow> string list" where
  "logic_references logic_check =
     (let expression = py_strip (hd (py_split1 logic_check '';''));
          clean_expression = re_sub QUOTED_STRING_RE [] expression;
          matches = re_findall FIELD_NAME_RE clean_expression
      in filter (\<lambda>m. py_lower m \<notin> LOGIC_KEYWORDS) matches)"

text \<open>
  The body of \<open>for ref in referenced\<close>.  \<open>field_index[cur_field]\<close> cannot raise: the name
  of a question of the list is a key of the index (lemma \<open>field_index_defined\<close>); the model
  leaves the state as it is there.
\<close>

definition check_logic_reference ::
  "string \<Rightarrow> (string \<Rightarrow> nat option) \<Rightarrow> string \<Rightarrow> ExcelReader \<Rightarrow> string \<Rightarrow> ExcelReader" where
  "check_logic_reference worksheet fi cur_field st ref =
     (case fi ref of
        Some ref_index \<Rightarrow>
          (case fi cur_field of
             None \<Rightarrow> st
           | Some cur_index \<Rightarrow>
               if ref_index > cur_index
               then reader_error st (msg_logic_after worksheet cur_field ref)
               else st)
      | None \<Rightarrow> reader_error st (msg_logic_nonexistent worksheet cur_field ref))"

text \<open>
  \<open>_check_logic_field_names\<close>.  Python does not fix the order in which a set of strings
  is iterated; \<open>set_iter\<close> is that order, a parameter of the model: it turns the list the
  set is built from into the list of its elements as the loop meets them.
\<close>

definition check_logic_field_names ::
  "(string list \<Rightarrow> string list) \<Rightarrow> string \<Rightarrow> ExcelReader \<Rightarrow> ExcelReader" where
  "check_logic_field_names set_iter worksheet st =
     (let fi = field_index (questionList st) in
      foldl (\<lambda>st question.
         foldl (\<lambda>st logic_check.
            foldl (check_logic_reference worksheet fi (fieldName question)) st
              (set_iter (logic_references logic_check)))
           st (logicChecks question))
        st (questionList st))"

definition msg_skip_prefix :: "string \<Rightarrow> string \<Rightarrow> string" where
  "msg_skip_prefix worksheet cur_field =
     ''ERROR - Skip: In worksheet '' @ quoted worksheet
       @ '', the skip for FieldName '' @ quoted cur_field"

definition msg_skip_structure :: "string \<Rightarrow> string \<Rightarrow> string \<Rightarrow> string" where
  "msg_skip_structure worksheet cur_field skip_line =
     msg_skip_prefix worksheet cur_field @ '' has invalid structure: '' @ skip_line"

definition msg_skip_check_after :: "string \<Rightarrow> string \<Rightarrow> string \<Rightarrow> string" where
  "msg_skip_check_after worksheet cur_field name =
     msg_skip_prefix worksheet cur_field
       @ '' checks skip for a FieldName AFTER the current question: '' @ name"

definition msg_skip_check_nonexistent :: "string \<Rightarrow> string \<Rightarrow> string \<Rightarrow> string" where
  "msg_skip_check_nonexistent worksheet cur_field name =
     msg_skip_prefix worksheet cur_field
       @ '' checks skip of a nonexistent FieldName: '' @ name"

definition msg_skip_to_before :: "string \<Rightarrow> string \<Rightarrow> string \<Rightarrow> string" where
  "msg_skip_to_before worksheet cur_field name =
     msg_skip_prefix worksheet cur_field
       @ '' skips to a FieldName BEFORE the current question: '' @ name"

definition msg_skip_to_self :: "string \<Rightarrow> string \<Rightarrow> string \<Rightarrow> string" where
  "msg_skip_to_self worksheet cur_field name =
     msg_skip_prefix worksheet cur_field @ '' skips to the current question: '' @ name"

definition msg_skip_to_nonexistent :: "string \<Rightarrow> string \<Rightarrow> string \<Rightarrow> string" where
  "msg_skip_to_nonexistent worksheet cur_field name =
     msg_skip_prefix worksheet cur_field @ '' skips to a nonexistent FieldName: '' @ name"

text \<open>\<open>[w for w in skip.split(" ") if w]\<close>.\<close>

definition skip_words :: "string \<Rightarrow> string list" where
  "skip_words skip_line = filter (\<lambda>w. w \<noteq> []) (py_split skip_line '' '')"

text \<open>
  The body of the loop over the lines of a question's skip cell in
  \<open>_check_skip_to_field_names\<close>.  As above, \<open>field_index[cur_field]\<close> cannot raise.
\<close>

definition check_skip_line ::
  "string \<Rightarrow> (string \<Rightarrow> nat option) \<Rightarrow> string \<Rightarrow> ExcelReader \<Rightarrow> string \<Rightarrow> ExcelReader" where
  "check_skip_line worksheet fi cur_field st skip_line =
     (let ws = skip_words skip_line in
      if length ws < 4
      then reader_error st (msg_skip_structure worksheet cur_field skip_line)
      else
        let fieldname_to_check = py_strip_chars '','' (py_strip (ws ! 2));
            fieldname_to_skip_to = py_strip (last ws)
        in
        case fi cur_field of
          None \<Rightarrow> st
        | Some cur_index \<Rightarrow>
            let st1 =
              (case fi fieldname_to_check of
                 Some check_index \<Rightarrow>
                   if check_index > cur_index
                   then reader_error st
                          (msg_skip_check_after worksheet cur_field fieldname_to_check)
                   else st
               | None \<Rightarrow>
                   reader_error st
                     (msg_skip_check_nonexistent worksheet cur_field fieldname_to_check))
            in
            (case fi fieldname_to_skip_to of
               Some target_index \<Rightarrow>
                 if target_index < cur_index
                 then reader_error st1
                        (msg_skip_to_before worksheet cur_field fieldname_to_skip_to)
                 else if target_index = cur_index
                 then reader_error st1
                        (msg_skip_to_self worksheet cur_field fieldname_to_skip_to)
                 else st1
             | None \<Rightarrow>
                 reader_error st1
                   (msg_skip_to_nonexistent worksheet cur_field fieldname_to_skip_to)))"

text \<open>\<open>_check_skip_to_field_names\<close>.\<close>

definition check_skip_to_field_names :: "string \<Rightarrow> ExcelReader \<Rightarrow> ExcelReader" where
  "check_skip_to_field_names worksheet st =
     (let fi = field_index (questionList st) in
      foldl (\<lambda>st question.
         if skip question = [] then st
         else foldl (check_skip_line worksheet fi (fieldName question)) st
                (split_lines (skip question)))
        st (questionList st))"

text \<open>\<open>_check_duplicate_columns\<close>.\<close>

definition check_duplicate_columns :: "string \<Rightarrow> ExcelReader \<Rightarrow> ExcelReader" where
  "check_duplicate_columns worksheet st =
     (let fields = map fieldName
                     (filter (\<lambda>q. questionType q \<noteq> ''information'') (questionList st));
          duplicates = sort (remdups (filter (\<lambda>f. count_list fields f > 1) fields))
      in
      if \<not> distinct fields
      then reader_error st
             (''ERROR - Duplicate fieldnames found in worksheet: '' @ worksheet
                @ ''. Duplicated fieldnames: '' @ py_join '','' duplicates
                @ ''. Check for empty rows at the end of the spreadsheet and delete them.'')
      else st)"

text \<open>Logging several diagnostics in turn: \<open>_error\<close> called on each.\<close>

definition log_errors :: "ExcelReader \<Rightarrow> string list \<Rightarrow> ExcelReader" where
  "log_errors st ms = foldl reader_error st ms"

subsection \<open>The response directives\<close>

text \<open>A warning is logged without setting a flag (\<open>self.logstring.append\<close>).\<close>

definition reader_warning :: "ExcelReader \<Rightarrow> string \<Rightarrow> ExcelReader" where
  "reader_warning st message = st\<lparr> logstring := logstring st @ [message] \<rparr>"

text \<open>\<open>_parse_operator\<close>.\<close>

definition parse_operator :: "string \<Rightarrow> string" where
  "parse_operator op0 =
     (let op = py_strip op0 in
      if op = ''>'' then ''&gt;''
      else if op = ''<'' then ''&lt;''
      else if op = ''>='' then ''&gt;=''
      else if op = ''<='' then ''&lt;=''
      else if op \<in> {''='', ''!='', ''<>''} then op
      else ''='')"

text \<open>
  \<open>match.group(n)\<close> for a group that takes part in every match of its pattern (the empty
  string stands for the \<open>None\<close> that cannot come).
\<close>

definition group_text :: "(nat \<times> string) list \<Rightarrow> nat \<Rightarrow> string" where
  "group_text g n = (case group g n of Some s \<Rightarrow> s | None \<Rightarrow> [])"

text \<open>The \<open>filter\<close> key: \<open>match.group(2) if match.group(2) else "="\<close> is the operator.\<close>

definition parse_filter :: "string \<Rightarrow> Filter option" where
  "parse_filter v =
     (case re_match FILTER_MATCH_RE v of
        None \<Rightarrow> None
      | Some g \<Rightarrow>
          Some (Filter (py_strip (group_text g 1))
                       (py_strip (group_text g 3))
                       (parse_operator
                          (case group g 2 of
                             None \<Rightarrow> ''=''
                           | Some op \<Rightarrow> if op = [] then ''='' else op))))"

text \<open>The body of the loop of \<open>_parse_dynamic_responses\<close>, on one line of the cell.\<close>

definition dynamic_response_line ::
  "string \<Rightarrow> string \<Rightarrow> ExcelReader \<times> Question \<Rightarrow> string \<Rightarrow> ExcelReader \<times> Question" where
  "dynamic_response_line worksheet fieldname sq line =
     (let st = fst sq; question = snd sq; trimmed = py_strip line in
      if trimmed = [] then (st, question)
      else let ps = py_split1 trimmed '':'' in
        if length ps \<noteq> 2
        then (reader_error st
                (''ERROR - Responses: Invalid dynamic response line format for ''
                   @ in_worksheet fieldname worksheet @ '': '' @ quoted trimmed),
              question)
        else let key = py_lower (py_strip (ps ! 0)); v = py_strip (ps ! 1) in
          if key = ''source'' then
            (if py_lower v = ''csv'' then (st, question\<lparr>responseSourceType := CSV\<rparr>)
             else if py_lower v = ''database''
               then (st, question\<lparr>responseSourceType := DATABASE\<rparr>)
             else (reader_error st
                     (''ERROR - Responses: Invalid source type '' @ quoted v @ '' for ''
                        @ in_worksheet fieldname worksheet
                        @ ''. Must be 'csv' or 'database'.''),
                   question))
          else if key = ''file'' then (st, question\<lparr>responseSourceFile := v\<rparr>)
          else if key = ''table'' then (st, question\<lparr>responseSourceTable := v\<rparr>)
          else if key = ''filter'' then
            (case parse_filter v of
               Some flt \<Rightarrow>
                 (st, question\<lparr>responseFilters := responseFilters question @ [flt]\<rparr>)
             | None \<Rightarrow>
                 (reader_error st
                    (''ERROR - Responses: Invalid filter format for ''
                       @ in_worksheet fieldname worksheet @ '': '' @ quoted v
                       @ ''. Expected 'column [operator] value'.''),
                  question))
          else if key = ''display'' then (st, question\<lparr>responseDisplayColumn := v\<rparr>)
          else if key = ''value'' then (st, question\<lparr>responseValueColumn := v\<rparr>)
          else if key = ''distinct'' then
            (if py_lower v = ''true'' then (st, question\<lparr>responseDistinct := Some True\<rparr>)
             else if py_lower v = ''false''
               then (st, question\<lparr>responseDistinct := Some False\<rparr>)
             else (reader_error st
                     (''ERROR - Responses: Invalid boolean value for 'distinct' for ''
                        @ in_worksheet fieldname worksheet
                        @ ''. Must be 'true' or 'false'.''),
                   question))
          else if key = ''empty_message'' then (st, question\<lparr>responseEmptyMessage := v\<rparr>)
          else if key = ''dont_know'' then
            (let vs = py_split1 v '','';
                 q1 = question\<lparr>responseDontKnowValue := py_strip (vs ! 0)\<rparr>
             in (st, if length vs > 1 then q1\<lparr>responseDontKnowLabel := py_strip (vs ! 1)\<rparr>
                     else q1))
          else if key = ''not_in_list'' then
            (let vs = py_split1 v '','';
                 q1 = question\<lparr>responseNotInListValue := py_strip (vs ! 0)\<rparr>
             in (st, if length vs > 1 then q1\<lparr>responseNotInListLabel := py_strip (vs ! 1)\<rparr>
                     else q1))
          else (reader_warning st
                  (''WARNING - Responses: Unknown dynamic response key '' @ quoted key
                     @ '' for '' @ in_worksheet fieldname worksheet @ ''.''),
                question))"

text \<open>\<open>_parse_dynamic_responses\<close>.\<close>

definition parse_dynamic_responses ::
  "string \<Rightarrow> Question \<Rightarrow> string \<Rightarrow> string \<Rightarrow> ExcelReader \<Rightarrow> ExcelReader \<times> Question" where
  "parse_dynamic_responses rs question worksheet fieldname st =
     foldl (dynamic_response_line worksheet fieldname) (st, question) (split_lines rs)"

subsection \<open>The calculation directives\<close>

text \<open>\<open>CalculationPart()\<close>: every field at its default.\<close>

definition new_CalculationPart :: CalculationPart where
  "new_CalculationPart = CalculationPart NONE [] [] [] [] [] [] []"

text \<open>\<open>_parse_result_value\<close>.\<close>

definition parse_result_value :: "string \<Rightarrow> CalculationPart" where
  "parse_result_value v = CalculationPart CONSTANT v [] [] [] [] [] []"

definition calc_for :: "string \<Rightarrow> string \<Rightarrow> string" where
  "calc_for fieldname worksheet = '' for '' @ in_worksheet fieldname worksheet"

text \<open>\<open>_parse_parameter\<close>.\<close>

definition parse_parameter ::
  "string \<Rightarrow> Question \<Rightarrow> string \<Rightarrow> string \<Rightarrow> ExcelReader \<Rightarrow> ExcelReader \<times> Question" where
  "parse_parameter param_str question worksheet fieldname st =
     (case re_match PARAMETER_RE param_str of
        None \<Rightarrow>
          (reader_error st
             (''ERROR - Calculation: Invalid parameter format '' @ quoted param_str
                @ calc_for fieldname worksheet
                @ ''. Expected format: '@paramName = fieldName'.''),
           question)
      | Some g \<Rightarrow>
          let name0 = py_strip (group_text g 1);
              name = (if \<not> py_startswith name0 ''@'' then ''@'' @ name0 else name0)
          in (st, question\<lparr>calculationQueryParameters :=
                     calculationQueryParameters question
                       @ [CalculationParameter name (py_strip (group_text g 2))]\<rparr>))"

text \<open>\<open>_parse_when_condition\<close>.\<close>

definition parse_when_condition ::
  "string \<Rightarrow> string \<Rightarrow> ExcelReader \<times> Question \<Rightarrow> string \<Rightarrow> ExcelReader \<times> Question" where
  "parse_when_condition worksheet fieldname sq when_str =
     (let st = fst sq; question = snd sq in
      case re_match WHEN_CONDITION_RE when_str of
        None \<Rightarrow>
          (reader_error st
             (''ERROR - Calculation: Invalid when condition format '' @ quoted when_str
                @ calc_for fieldname worksheet
                @ ''. Expected format: 'field operator value => result'.''),
           question)
      | Some g \<Rightarrow>
          (st, question\<lparr>calculationCaseConditions :=
                  calculationCaseConditions question
                    @ [CaseCondition (py_strip (group_text g 1)) (py_strip (group_text g 2))
                         (py_strip (group_text g 3))
                         (Some (parse_result_value (py_strip (group_text g 4))))]\<rparr>))"

text \<open>\<open>_parse_part_line\<close>.\<close>

definition parse_part_line ::
  "string \<Rightarrow> string \<Rightarrow> string \<Rightarrow> ExcelReader \<Rightarrow> ExcelReader \<times> CalculationPart option" where
  "parse_part_line part_line worksheet fieldname st =
     (let words = py_split1 part_line '' '' in
      if length words < 2
      then (reader_error st
              (''ERROR - Calculation: Invalid part format '' @ quoted part_line
                 @ calc_for fieldname worksheet @ ''. Expected 'type value'.''),
            None)
      else let part_type = py_lower (py_strip (words ! 0)); part_value = py_strip (words ! 1) in
        if part_type = ''constant''
          then (st, Some (CalculationPart CONSTANT part_value [] [] [] [] [] []))
        else if part_type = ''lookup''
          then (st, Some (CalculationPart LOOKUP [] part_value [] [] [] [] []))
        else if part_type = ''query''
          then (st, Some (CalculationPart QUERY [] [] part_value [] [] [] []))
        else (reader_error st
                (''ERROR - Calculation: Invalid part type '' @ quoted part_type
                   @ calc_for fieldname worksheet
                   @ ''. Must be 'constant', 'lookup', or 'query'.''),
              None))"

definition msg_calc_missing :: "string \<Rightarrow> string \<Rightarrow> string \<Rightarrow> string \<Rightarrow> string" where
  "msg_calc_missing kind fieldname worksheet what =
     ''ERROR - Calculation: '' @ kind @ '' calculation'' @ calc_for fieldname worksheet
       @ '' '' @ what"

text \<open>\<open>_validate_calculation_fields\<close>.\<close>

definition validate_calculation_fields ::
  "Question \<Rightarrow> string \<Rightarrow> string \<Rightarrow> ExcelReader \<Rightarrow> ExcelReader" where
  "validate_calculation_fields question worksheet fieldname st =
     (let ctype = calculationType question;
          missing_field = (\<lambda>kind st.
            if calculationLookupField question = []
            then reader_error st
                   (msg_calc_missing kind fieldname worksheet
                      ''is missing required 'field' field.'')
            else st);
          missing_value = (\<lambda>kind st.
            if calculationConstantValue question = []
            then reader_error st
                   (msg_calc_missing kind fieldname worksheet
                      ''is missing required 'value' field.'')
            else st)
      in
      if ctype = QUERY \<and> calculationQuerySql question = []
        then reader_error st
               (msg_calc_missing ''Query'' fieldname worksheet
                  ''is missing required 'sql' field.'')
      else if ctype = CASE \<and> length (calculationCaseConditions question) = 0
        then reader_error st
               (msg_calc_missing ''Case'' fieldname worksheet ''is missing 'when' conditions.'')
      else if ctype = CONSTANT \<and> calculationConstantValue question = []
        then reader_error st
               (msg_calc_missing ''Constant'' fieldname worksheet
                  ''is missing required 'value' field.'')
      else if ctype = LOOKUP \<and> calculationLookupField question = []
        then reader_error st
               (msg_calc_missing ''Lookup'' fieldname worksheet
                  ''is missing required 'field' field.'')
      else if ctype = MATH then
        (let st1 = (if calculationMathOperator question = []
                    then reader_error st
                           (msg_calc_missing ''Math'' fieldname worksheet
                              ''is missing required 'operator' field.'')
                    else st)
         in if length (calculationMathParts question) < 2
            then reader_error st1
                   (msg_calc_missing ''Math'' fieldname worksheet ''must have at least 2 parts.'')
            else st1)
      else if ctype = CONCAT \<and> length (calculationConcatParts question) = 0
        then reader_error st
               (msg_calc_missing ''Concat'' fieldname worksheet ''must have at least 1 part.'')
      else if ctype = AGE_FROM_DATE
        then missing_value ''AgeFromDate'' (missing_field ''AgeFromDate'' st)
      else if ctype = AGE_AT_DATE
        then missing_value ''AgeAtDate'' (missing_field ''AgeAtDate'' st)
      else if ctype = DATE_OFFSET then
        (let st1 = missing_field ''DateOffset'' st in
         if calculationConstantValue question = []
         then reader_error st1
                (msg_calc_missing ''DateOffset'' fieldname worksheet
                   ''is missing required 'value' field.'')
         else if \<not> re_fullmatch DATE_RANGE_RE (calculationConstantValue question)
         then reader_error st1
                (msg_calc_missing ''DateOffset'' fieldname worksheet
                   (''has invalid 'value' format: '' @ calculationConstantValue question
                      @ ''. Expected format like '+28d', '-1y', etc.''))
         else st1)
      else if ctype = DATE_DIFF then
        (let st1 = (if calculationLookupField question = []
                    then reader_error st
                           (msg_calc_missing ''DateDiff'' fieldname worksheet
                              ''is missing required 'field' field (start date).'')
                    else st);
             st2 = (if calculationConstantValue question = []
                    then reader_error st1
                           (msg_calc_missing ''DateDiff'' fieldname worksheet
                              ''is missing required 'value' field (end date).'')
                    else st1)
         in if calculationUnit question = []
            then reader_error st2
                   (msg_calc_missing ''DateDiff'' fieldname worksheet
                      ''is missing required 'unit' field.'')
            else if py_lower (calculationUnit question) \<notin> {''d'', ''w'', ''m'', ''y''}
            then reader_error st2
                   (msg_calc_missing ''DateDiff'' fieldname worksheet
                      (''has invalid 'unit': '' @ calculationUnit question
                         @ ''. Must be 'd', 'w', 'm', or 'y'.''))
            else st2)
      else st)"

text \<open>The \<open>mapping\<close> of the \<open>calc\<close> key.\<close>

definition calc_mapping :: "string \<Rightarrow> CalculationType option" where
  "calc_mapping =
     map_of [(''query'', QUERY), (''case'', CASE), (''constant'', CONSTANT),
             (''lookup'', LOOKUP), (''math'', MATH), (''concat'', CONCAT),
             (''age_from_date'', AGE_FROM_DATE), (''age_at_date'', AGE_AT_DATE),
             (''date_offset'', DATE_OFFSET), (''date_diff'', DATE_DIFF)]"

text \<open>
  The state of the first loop of \<open>_parse_automatic_calculation\<close>: the reader, the
  question, \<open>current_calc\<close>, \<open>when_lines\<close> and \<open>part_lines\<close>.
\<close>

type_synonym calc_state = "ExcelReader \<times> Question \<times> string \<times> string list \<times> string list"

definition calculation_line :: "string \<Rightarrow> string \<Rightarrow> calc_state \<Rightarrow> string \<Rightarrow> calc_state" where
  "calculation_line worksheet fieldname cs line =
     (case cs of (st, question, current_calc, when_lines, part_lines) \<Rightarrow>
      let trimmed = py_strip line in
      if trimmed = [] then cs
      else let ps = py_split1 trimmed '':'' in
        if length ps \<noteq> 2
        then (reader_error st
                (''ERROR - Calculation: Invalid line format'' @ calc_for fieldname worksheet
                   @ '': '' @ quoted trimmed),
              question, current_calc, when_lines, part_lines)
        else let key = py_lower (py_strip (ps ! 0)); v = py_strip (ps ! 1) in
          if key = ''calc'' then
            (case calc_mapping (py_lower v) of
               Some ctype \<Rightarrow>
                 (st, question\<lparr>calculationType := ctype\<rparr>, py_lower v, when_lines, part_lines)
             | None \<Rightarrow>
                 (reader_error st
                    (''ERROR - Calculation: Invalid calculation type '' @ quoted v
                       @ calc_for fieldname worksheet
                       @ ''. Must be 'query', 'case', 'constant', 'lookup', 'math', 'concat', 'age_from_date', 'age_at_date', 'date_offset', or 'date_diff'.''),
                  question, py_lower v, when_lines, part_lines))
          else if key = ''sql''
            then (st, question\<lparr>calculationQuerySql := v\<rparr>, current_calc, when_lines,
                  part_lines)
          else if key = ''param'' then
            (case parse_parameter v question worksheet fieldname st of
               (st', question') \<Rightarrow> (st', question', current_calc, when_lines, part_lines))
          else if key = ''when''
            then (st, question, current_calc, when_lines @ [v], part_lines)
          else if key = ''else'' then
            (if current_calc = ''case''
             then (st, question\<lparr>calculationCaseElse := Some (parse_result_value v)\<rparr>,
                   current_calc, when_lines, part_lines)
             else cs)
          else if key = ''value'' then
            (if current_calc \<in> {''constant'', ''age_from_date'', ''age_at_date'',
                                   ''date_offset'', ''date_diff''}
             then (st, question\<lparr>calculationConstantValue := v\<rparr>, current_calc, when_lines,
                   part_lines)
             else cs)
          else if key = ''field'' then
            (if current_calc \<in> {''lookup'', ''age_from_date'', ''age_at_date'',
                                   ''date_offset'', ''date_diff''}
             then (st, question\<lparr>calculationLookupField := v\<rparr>, current_calc, when_lines,
                   part_lines)
             else cs)
          else if key = ''unit'' then
            (if current_calc = ''date_diff''
             then (st, question\<lparr>calculationUnit := v\<rparr>, current_calc, when_lines,
                   part_lines)
             else cs)
          else if key = ''operator'' then
            (if current_calc = ''math'' then
               (if v \<in> {''+'', ''-'', ''*'', ''/''}
                then (st, question\<lparr>calculationMathOperator := v\<rparr>, current_calc,
                      when_lines, part_lines)
                else (reader_error st
                        (''ERROR - Calculation: Invalid math operator '' @ quoted v
                           @ calc_for fieldname worksheet @ ''. Must be +, -, *, or /.''),
                      question, current_calc, when_lines, part_lines))
             else cs)
          else if key = ''separator'' then
            (if current_calc \<in> {''concat'', ''age_at_date''}
             then (st, question\<lparr>calculationConcatSeparator := v\<rparr>, current_calc,
                   when_lines, part_lines)
             else cs)
          else if key = ''part''
            then (st, question, current_calc, when_lines, part_lines @ [v])
          else (reader_warning st
                  (''WARNING - Calculation: Unknown calculation key '' @ quoted key
                     @ calc_for fieldname worksheet @ ''.''),
                question, current_calc, when_lines, part_lines))"

text \<open>The body of the loop over \<open>part_lines\<close>.\<close>

definition calculation_part_line ::
  "string \<Rightarrow> string \<Rightarrow> string \<Rightarrow> ExcelReader \<times> Question \<Rightarrow> string \<Rightarrow> ExcelReader \<times> Question"
  where
  "calculation_part_line worksheet fieldname current_calc sq part_line =
     (let st = fst sq; question = snd sq in
      case parse_part_line part_line worksheet fieldname st of
        (st', None) \<Rightarrow> (st', question)
      | (st', Some part) \<Rightarrow>
          if current_calc = ''math''
          then (st', question\<lparr>calculationMathParts :=
                        calculationMathParts question @ [part]\<rparr>)
          else (st', question\<lparr>calculationConcatParts :=
                        calculationConcatParts question @ [part]\<rparr>))"

text \<open>\<open>_parse_automatic_calculation\<close>.\<close>

definition parse_automatic_calculation ::
  "string \<Rightarrow> Question \<Rightarrow> string \<Rightarrow> string \<Rightarrow> ExcelReader \<Rightarrow> ExcelReader \<times> Question" where
  "parse_automatic_calculation rs question worksheet fieldname st =
     (case foldl (calculation_line worksheet fieldname) (st, question, [], [], [])
             (split_lines rs) of
        (st1, q1, current_calc, when_lines, part_lines) \<Rightarrow>
          let sq2 = (if current_calc = ''case''
                     then foldl (parse_when_condition worksheet fieldname) (st1, q1) when_lines
                     else (st1, q1));
              sq3 = (if current_calc \<in> {''math'', ''concat''}
                     then foldl (calculation_part_line worksheet fieldname current_calc) sq2
                            part_lines
                     else sq2)
          in (validate_calculation_fields (snd sq3) worksheet fieldname (fst sq3), snd sq3))"

subsection \<open>Reading a sheet\<close>

text \<open>\<open>str(n)\<close> for a row number.\<close>

fun py_str_nat :: "nat \<Rightarrow> string" where
  "py_str_nat n =
     (if n < 10 then [''0123456789'' ! n]
      else py_str_nat (n div 10) @ [''0123456789'' ! (n mod 10)])"

declare py_str_nat.simps [simp del]

definition msg_header :: "string \<Rightarrow> string" where
  "msg_header worksheet =
     ''ERROR: The header names in the '' @ worksheet
       @ '' are incorrect. Header names should be: ''
       @ ''FieldName, QuestionType, FieldType, QuestionText, MaxCharacters, ''
       @ ''Responses, LowerRange, UpperRange, LogicCheck, DontKnow, Refuse, NA, Skip, Comments''"

text \<open>
  The body of the loop over the lines of the LogicCheck cell.  \<open>split(";", 1)\<close> of a line
  that starts with \<open>unique;\<close> has two parts, so the "missing message" diagnostic of the
  source is never logged.
\<close>

definition logic_check_line ::
  "string \<Rightarrow> ExcelReader \<times> Question \<Rightarrow> string \<Rightarrow> ExcelReader \<times> Question" where
  "logic_check_line worksheet sq check_line =
     (let st = fst sq; q = snd sq; trimmed = py_strip check_line in
      if py_startswith trimmed ''unique;''
      then let ps = py_split1 trimmed '';'' in
        if length ps = 2
        then let message = py_strip (ps ! 1) in
          if py_startswith message SQ \<and> py_endswith message SQ
          then (st, q\<lparr>uniqueCheckMessage := py_strip_chars SQ message\<rparr>)
          else (reader_error st
                  (''ERROR - LogicCheck: '' @ in_worksheet (fieldName q) worksheet
                     @ '' has invalid syntax for unique check message (must be in single quotes): ''
                     @ trimmed),
                q)
        else (reader_error st
                (''ERROR - LogicCheck: '' @ in_worksheet (fieldName q) worksheet
                   @ '' has invalid syntax for unique check (missing message): '' @ trimmed),
              q)
      else (check_logic_check_syntax worksheet trimmed (fieldName q) st,
            q\<lparr>logicChecks := logicChecks q @ [trimmed]\<rparr>))"

text \<open>\<open>x or "-9"\<close>.\<close>

definition or_unset :: "string \<Rightarrow> string" where
  "or_unset s = (if s = [] then ''-9'' else s)"

text \<open>
  The body of the loop over the rows of \<open>create_question_list\<close>, block by block in the
  order of the source.  Every block takes the reader and the question \<open>q\<close> under
  construction and returns both.  None of the operations raises in this model (the strings
  are indexed only where the source has tested their length), so the handler of the
  source's \<open>try\<close> has no counterpart.
\<close>

text \<open>The cells QuestionType, FieldType, QuestionText and MaxCharacters.\<close>

definition row_texts ::
  "Worksheet \<Rightarrow> nat \<Rightarrow> ExcelReader \<times> Question \<Rightarrow> ExcelReader \<times> Question" where
  "row_texts ws row_idx sq =
     (let st = fst sq; q0 = snd sq;
          st1 = check_field_name (title ws) (fieldName q0) st;
          q1 = q0\<lparr>questionType := get_cell_trim ws row_idx 2,
                   fieldType := get_cell_trim ws row_idx 3,
                   questionText := get_cell_trim ws row_idx 4\<rparr>;
          st2 = (if questionText q1 = [] \<and> questionType q1 \<noteq> ''automatic''
                 then reader_error st1
                        (''ERROR - QuestionText: '' @ in_worksheet (fieldName q1) (title ws)
                           @ '' has blank QuestionText.'')
                 else st1);
          q2 = q1\<lparr>maxCharacters := or_unset (get_cell_trim ws row_idx 5)\<rparr>;
          st3 = (if maxCharacters q2 \<noteq> ''-9''
                 then check_max_chars_value (title ws) (maxCharacters q2) (fieldName q2) st2
                 else st2)
      in (st3, q2))"

text \<open>The cell Responses, and \<open>_check_question_field_type\<close> after it.\<close>

definition row_responses ::
  "Worksheet \<Rightarrow> nat \<Rightarrow> ExcelReader \<times> Question \<Rightarrow> ExcelReader \<times> Question" where
  "row_responses ws row_idx sq =
     (let st3 = fst sq; q2 = snd sq;
          raw_responses = get_cell_raw ws row_idx 6;
          raw_stripped = py_strip raw_responses;
          sq4 =
            (if py_startswith (py_lower raw_stripped) ''source:''
             then parse_dynamic_responses raw_responses q2 (title ws) (fieldName q2) st3
             else if py_startswith (py_lower raw_stripped) ''calc:'' then
               (if questionType q2 = ''automatic'' then
                  (if py_lower (fieldName q2) \<notin> BUILT_IN_AUTO_FIELDS
                   then parse_automatic_calculation raw_responses q2 (title ws)
                          (fieldName q2) st3
                   else (st3, q2))
                else (reader_error st3
                        (''ERROR - Calculation: '' @ in_worksheet (fieldName q2) (title ws)
                           @ '' has calculation syntax but QuestionType is not 'automatic'.''),
                      q2))
             else if py_startswith (py_lower raw_stripped) ''mask:'' then
               (if questionType q2 = ''text''
                then (st3, q2\<lparr>mask := py_strip (drop 5 raw_stripped)\<rparr>)
                else (reader_error st3
                        (''ERROR - Mask: '' @ in_worksheet (fieldName q2) (title ws)
                           @ '' has mask syntax but QuestionType is not 'text'.''),
                      q2))
             else (st3, q2\<lparr>responses := raw_responses\<rparr>))
      in (check_question_field_type (snd sq4) (title ws) (fst sq4), snd sq4))"

text \<open>The cells LowerRange and UpperRange.\<close>

definition row_ranges ::
  "Worksheet \<Rightarrow> nat \<Rightarrow> ExcelReader \<times> Question \<Rightarrow> ExcelReader \<times> Question" where
  "row_ranges ws row_idx sq =
     (let st5 = fst sq; q4 = snd sq;
          q5 = q4\<lparr>lowerRange := or_unset (get_cell_trim ws row_idx 7),
                   upperRange := or_unset (get_cell_trim ws row_idx 8)\<rparr>;
          st6 =
            (if questionType q5 = ''date''
             then check_date_range (title ws) (upperRange q5) (fieldName q5) ''UpperRange''
                    (check_date_range (title ws) (lowerRange q5) (fieldName q5)
                       ''LowerRange'' st5)
             else
               let st5a = (if lowerRange q5 \<noteq> ''-9''
                           then check_numeric_range (title ws) (lowerRange q5)
                                  (fieldName q5) ''LowerRange'' st5
                           else st5)
               in if upperRange q5 \<noteq> ''-9''
                  then check_numeric_range (title ws) (upperRange q5) (fieldName q5)
                         ''UpperRange'' st5a
                  else st5a)
      in (st6, q5))"

text \<open>The cell LogicCheck.\<close>

definition row_logic ::
  "Worksheet \<Rightarrow> nat \<Rightarrow> ExcelReader \<times> Question \<Rightarrow> ExcelReader \<times> Question" where
  "row_logic ws row_idx sq =
     (let logic_raw = get_cell_trim ws row_idx 9 in
      if logic_raw \<noteq> []
      then foldl (logic_check_line (title ws)) sq (split_lines logic_raw)
      else sq)"

text \<open>The cells DontKnow, Refuse and NA.\<close>

definition row_buttons ::
  "Worksheet \<Rightarrow> nat \<Rightarrow> ExcelReader \<times> Question \<Rightarrow> ExcelReader \<times> Question" where
  "row_buttons ws row_idx sq =
     (let st7 = fst sq; q7 = snd sq;
          q8 = q7\<lparr>dontKnow := or_unset (get_cell_trim ws row_idx 10)\<rparr>;
          st8 = (if dontKnow q8 \<noteq> ''-9''
                 then check_special_button (title ws) (dontKnow q8) (fieldName q8)
                        ''DontKnow'' st7
                 else st7);
          q9 = q8\<lparr>refuse := or_unset (get_cell_trim ws row_idx 11)\<rparr>;
          st9 = (if refuse q9 \<noteq> ''-9''
                 then check_special_button (title ws) (refuse q9) (fieldName q9)
                        ''Refuse'' st8
                 else st8);
          q10 = q9\<lparr>na := or_unset (get_cell_trim ws row_idx 12)\<rparr>;
          st10 = (if na q10 \<noteq> ''-9''
                  then check_special_button (title ws) (na q10) (fieldName q10) ''NA'' st9
                  else st9)
      in (st10, q10))"

text \<open>The cell Skip.\<close>

definition row_skip ::
  "Worksheet \<Rightarrow> nat \<Rightarrow> ExcelReader \<times> Question \<Rightarrow> ExcelReader \<times> Question" where
  "row_skip ws row_idx sq =
     (let st10 = fst sq; q10 = snd sq;
          q11 = q10\<lparr>skip := get_cell_trim ws row_idx 13\<rparr>;
          st11 = (if skip q11 \<noteq> []
                  then check_skip_syntax (title ws) (skip q11) (fieldName q11) st10
                  else st10)
      in (st11, q11))"

text \<open>
  The body as a whole: the header row, a merged row, a row with a blank FieldName, and
  the blocks in turn, after which the question is appended to \<open>self.questionList\<close>.
\<close>

definition process_row :: "Worksheet \<Rightarrow> ExcelReader \<Rightarrow> nat \<Rightarrow> ExcelReader" where
  "process_row ws st row_idx =
     (if row_idx = 1 then
        (let current_headers =
               map (\<lambda>i. get_cell_trim ws 1 (i + 1)) [0 ..< NUMBER_OF_COLUMNS]
         in if current_headers \<noteq> COLUMN_NAMES then reader_error st (msg_header (title ws))
            else st)
      else if cell_merged ws row_idx NUMBER_OF_COLUMNS then st
      else
        let q0 = new_Question\<lparr>fieldName := get_cell_trim ws row_idx 1\<rparr> in
        if fieldName q0 = []
        then reader_error st
               (''ERROR - FieldName: Row '' @ py_str_nat row_idx @ '' in worksheet ''
                  @ quoted (title ws) @ '' has a blank FieldName.'')
        else
          let sq = row_skip ws row_idx
                     (row_buttons ws row_idx
                        (row_logic ws row_idx
                           (row_ranges ws row_idx
                              (row_responses ws row_idx
                                 (row_texts ws row_idx (st, q0))))))
          in (fst sq)\<lparr>questionList := questionList (fst sq) @ [snd sq]\<rparr>)"

text \<open>The first part of \<open>create_question_list\<close>: the reset and the loop over the rows.\<close>

definition read_rows :: "Worksheet \<Rightarrow> ExcelReader \<Rightarrow> ExcelReader" where
  "read_rows ws st =
     foldl (process_row ws)
       (st\<lparr> worksheetErrorsEncountered := False,
            logstring := logstring st @ [CR @ ''Checking worksheet: '' @ quoted (title ws)],
            questionList := [] \<rparr>)
       [1 ..< max_row ws + 1]"

text \<open>
  \<open>create_question_list\<close>.  The list the method returns is the \<open>questionList\<close> of the
  state it leaves.  The four whole-sheet checks stand under the source's test
  \<open>if not self.worksheetErrorsEncountered\<close>.
\<close>

definition create_question_list ::
  "(string list \<Rightarrow> string list) \<Rightarrow> Worksheet \<Rightarrow> ExcelReader \<Rightarrow> ExcelReader" where
  "create_question_list set_iter ws st =
     (let st1 = read_rows ws st in
      if \<not> worksheetErrorsEncountered st1
      then
        let st2 = check_logic_field_names set_iter (title ws) st1;
            st3 = check_skip_to_field_names (title ws) st2;
            st4 = check_required_max_characters (title ws) st3;
            st5 = check_duplicate_columns (title ws) st4
        in if \<not> worksheetErrorsEncountered st5
           then st5\<lparr>logstring := logstring st5
                       @ [''No errors found in '' @ quoted (title ws)]\<rparr>
           else st5
      else st1)"

text \<open>
  What a check adds to the log of the state it is run on, and what the four whole-sheet
  checks add when each is run on the state the loop over the rows has left.
\<close>

definition added_diagnostics :: "(ExcelReader \<Rightarrow> ExcelReader) \<Rightarrow> ExcelReader \<Rightarrow> string list" where
  "added_diagnostics check st = drop (length (logstring st)) (logstring (check st))"

definition late_diagnostics ::
  "(string list \<Rightarrow> string list) \<Rightarrow> string \<Rightarrow> ExcelReader \<Rightarrow> string list" where
  "late_diagnostics set_iter worksheet st =
     added_diagnostics (check_logic_field_names set_iter worksheet) st
       @ added_diagnostics (check_skip_to_field_names worksheet) st
       @ added_diagnostics (check_required_max_characters worksheet) st
       @ added_diagnostics (check_duplicate_columns worksheet) st"

text \<open>
  A worksheet given by the texts of its cells, row by row, for the examples: no cell is
  merged, and a cell outside the rows given is empty.
\<close>

definition sheet_of_rows :: "string \<Rightarrow> string list list \<Rightarrow> Worksheet" where
  "sheet_of_rows name rows =
     \<lparr> title = name, max_row = length rows,
       cell_text = (\<lambda>row col.
          if 1 \<le> row \<and> row \<le> length rows \<and> 1 \<le> col \<and> col \<le> length (rows ! (row - 1))
          then rows ! (row - 1) ! (col - 1) else []),
       cell_merged = (\<lambda>row col. False) \<rparr>"

section \<open>The emitter (xml\_generator.py)\<close>

text \<open>
  The exceptions the emitter can raise: a list indexed out of its range, and an unpacking
  of a list of the wrong length.
\<close>

datatype py_exception = IndexError | ValueError

text \<open>\<open>"\t" * n\<close>.\<close>

definition tabs :: "nat \<Rightarrow> string" where
  "tabs n = concat (replicate n TAB)"

text \<open>
  \<open>_generate_skip\<close>.  \<open>space_indices[2]\<close> is read first, \<open>space_indices[3]\<close> and
  \<open>space_indices[4]\<close> in the two branches for a line that does not have nine spaces; each
  raises \<open>IndexError\<close> on a line with too few spaces.
\<close>

definition generate_skip :: "string \<Rightarrow> string \<Rightarrow> py_exception + string" where
  "generate_skip skip_line skip_type =
     (let len_skip = (if skip_type = ''postSkip'' then 13 else 12 :: nat);
          sp = space_indices skip_line
      in
      if length sp < 3 then Inl IndexError
      else
        let fieldname_to_check = py_slice skip_line len_skip (sp ! 2);
            fieldname_to_skip_to = drop (last sp + 1) skip_line;
            emit = (\<lambda>condition response.
              tabs 3 @ ''<skip fieldname='' @ quoted fieldname_to_check
                @ '' condition = '' @ quoted condition
                @ '' response='' @ quoted response
                @ '' response_type='fixed' skiptofieldname ='' @ quoted fieldname_to_skip_to
                @ ''></skip>'')
        in
        if length sp = 9
        then Inr (emit ''does not contain'' (py_slice skip_line (sp ! 5 + 1) (sp ! 6 - 1)))
        else if py_contains skip_line ''contains''
        then (if length sp < 5 then Inl IndexError
              else Inr (emit ''contains'' (py_slice skip_line (sp ! 3 + 1) (sp ! 4 - 1))))
        else (if length sp < 5 then Inl IndexError
              else Inr (emit (py_replace
                                (py_replace (py_slice skip_line (sp ! 2 + 1) (sp ! 3))
                                   ''<'' ''&lt;'')
                                ''>'' ''&gt;'')
                             (py_slice skip_line (sp ! 3 + 1) (sp ! 4 - 1)))))"

text \<open>\<open>(?<!&lt;)(?<!&gt;)<(?!=)\<close> and \<open>(?<!&lt;=)(?<!&gt;=)>(?!=)\<close>.\<close>

definition BARE_LT_RE :: rx where
  "BARE_LT_RE = cats [NotBehind ''&lt;'', NotBehind ''&gt;'', Lit ''<'', NotAhead ''='']"

definition BARE_GT_RE :: rx where
  "BARE_GT_RE = cats [NotBehind ''&lt;='', NotBehind ''&gt;='', Lit ''>'', NotAhead ''='']"

text \<open>
  \<open>[f(i, part) for i, part in enumerate(parts)]\<close> of \<open>_generate_logic_check\<close>: every
  clause but the last gets the suffix \<open>or\<close>.
\<close>

fun or_lines :: "string list \<Rightarrow> string list" where
  "or_lines [] = []"
| "or_lines [part] = [tabs 3 @ py_strip part]"
| "or_lines (part # rest) = (tabs 3 @ py_strip part @ '' or'') # or_lines rest"

text \<open>
  \<open>_generate_logic_check\<close>.  Unpacking \<open>split(";", 1)\<close> into two names raises
  \<open>ValueError\<close> when the logic check has no semicolon.
\<close>

definition generate_logic_check :: "string \<Rightarrow> py_exception + string" where
  "generate_logic_check logic_check =
     (let ps = map py_strip (py_split1 logic_check '';'') in
      if length ps \<noteq> 2 then Inl ValueError
      else
        let message = ps ! 1;
            e1 = py_replace (ps ! 0) ''!='' ''&lt;&gt;'';
            e2 = py_replace e1 ''<>'' ''&lt;&gt;'';
            e3 = py_replace e2 ''<='' ''&lt;='';
            e4 = py_replace e3 ''>='' ''&gt;='';
            e5 = re_sub BARE_LT_RE ''&lt;'' e4;
            expression = re_sub BARE_GT_RE ''&gt;'' e5
        in
        if py_contains expression '' or ''
        then Inr (py_join NL (or_lines (py_split expression '' or '')
                                @ ['';'', tabs 3 @ message]))
        else Inr (tabs 3 @ expression @ ''; '' @ message))"

text \<open>\<open>_generate_calculation_part\<close>: the strings it writes, in order.\<close>

fun generate_calculation_part :: "CalculationPart \<Rightarrow> nat \<Rightarrow> string list" where
  "generate_calculation_part (CalculationPart ty cv lf qsql qps mo ps sep) indent_level =
     (let indent = tabs indent_level in
      if ty = CONSTANT
        then [indent @ ''<result type='constant' value='' @ quoted cv @ '' />'' @ NL]
      else if ty = LOOKUP
        then [indent @ ''<part type='lookup' field='' @ quoted lf @ '' />'' @ NL]
      else if ty = QUERY
        then [indent @ ''<part type='query'>'' @ NL,
              indent @ TAB @ ''<sql>'' @ qsql @ ''</sql>'' @ NL]
             @ map (\<lambda>param. indent @ TAB @ ''<parameter name='' @ quoted (param_name param)
                              @ '' field='' @ quoted (param_fieldName param) @ '' />'' @ NL) qps
             @ [indent @ ''</part>'' @ NL]
      else if ty = MATH
        then [indent @ ''<part type='math' operator='' @ quoted mo @ ''>'' @ NL]
             @ concat (map (\<lambda>nested. generate_calculation_part nested (indent_level + 1)) ps)
             @ [indent @ ''</part>'' @ NL]
      else if ty = CONCAT
        then [indent @ ''<part type='concat'' @ SQ
                @ (if sep \<noteq> [] then '' separator='' @ quoted sep else []) @ ''>'' @ NL]
             @ concat (map (\<lambda>nested. generate_calculation_part nested (indent_level + 1)) ps)
             @ [indent @ ''</part>'' @ NL]
      else [])"

text \<open>\<open>_convert_operator_to_xml\<close>.\<close>

definition convert_operator_to_xml :: "string \<Rightarrow> string" where
  "convert_operator_to_xml op0 =
     (case map_of [(''='', ''=''), (''!='', ''!=''), (''<>'', ''&lt;&gt;''), (''>'', ''&gt;''),
                   (''<'', ''&lt;''), (''>='', ''&gt;=''), (''<='', ''&lt;='')] (py_strip op0) of
        Some x \<Rightarrow> x
      | None \<Rightarrow> ''='')"

text \<open>\<open>_generate_calculation_xml\<close>: the strings it writes, in order.\<close>

definition generate_calculation_xml :: "Question \<Rightarrow> string list" where
  "generate_calculation_xml q =
     (let ctype = calculationType q;
          separator_attr = (if calculationConcatSeparator q \<noteq> []
                            then '' separator='' @ quoted (calculationConcatSeparator q)
                            else []);
          field_value = '' field='' @ quoted (calculationLookupField q)
                          @ '' value='' @ quoted (calculationConstantValue q)
      in
      if ctype = QUERY then
        [tabs 2 @ ''<calculation type='query'>'' @ NL,
         tabs 3 @ ''<sql>'' @ calculationQuerySql q @ ''</sql>'' @ NL]
        @ map (\<lambda>param. tabs 3 @ ''<parameter name='' @ quoted (param_name param)
                         @ '' field='' @ quoted (param_fieldName param) @ '' />'' @ NL)
            (calculationQueryParameters q)
        @ [tabs 2 @ ''</calculation>'' @ NL]
      else if ctype = CASE then
        [tabs 2 @ ''<calculation type='case'>'' @ NL]
        @ concat (map (\<lambda>cond.
             [tabs 3 @ ''<when field='' @ quoted (case_field cond)
                @ '' operator='' @ quoted (convert_operator_to_xml (case_operator cond))
                @ '' value='' @ quoted (case_value cond) @ ''>'' @ NL]
             @ (case case_result cond of
                  None \<Rightarrow> []
                | Some part \<Rightarrow> generate_calculation_part part 4)
             @ [tabs 3 @ ''</when>'' @ NL])
            (calculationCaseConditions q))
        @ (case calculationCaseElse q of
             None \<Rightarrow> []
           | Some part \<Rightarrow>
               [tabs 3 @ ''<else>'' @ NL] @ generate_calculation_part part 4
               @ [tabs 3 @ ''</else>'' @ NL])
        @ [tabs 2 @ ''</calculation>'' @ NL]
      else if ctype = CONSTANT then
        [tabs 2 @ ''<calculation type='constant' value=''
           @ quoted (calculationConstantValue q) @ '' />'' @ NL]
      else if ctype = LOOKUP then
        [tabs 2 @ ''<calculation type='lookup' field=''
           @ quoted (calculationLookupField q) @ '' />'' @ NL]
      else if ctype = MATH then
        [tabs 2 @ ''<calculation type='math' operator=''
           @ quoted (calculationMathOperator q) @ ''>'' @ NL]
        @ concat (map (\<lambda>part. generate_calculation_part part 3) (calculationMathParts q))
        @ [tabs 2 @ ''</calculation>'' @ NL]
      else if ctype = CONCAT then
        [tabs 2 @ ''<calculation type='concat'' @ SQ @ separator_attr @ ''>'' @ NL]
        @ concat (map (\<lambda>part. generate_calculation_part part 3) (calculationConcatParts q))
        @ [tabs 2 @ ''</calculation>'' @ NL]
      else if ctype = AGE_FROM_DATE then
        [tabs 2 @ ''<calculation type='age_from_date'' @ SQ @ field_value @ ''/>'' @ NL]
      else if ctype = AGE_AT_DATE then
        [tabs 2 @ ''<calculation type='age_at_date'' @ SQ @ field_value @ separator_attr
           @ ''/>'' @ NL]
      else if ctype = DATE_OFFSET then
        [tabs 2 @ ''<calculation type='date_offset'' @ SQ @ field_value @ '' />'' @ NL]
      else if ctype = DATE_DIFF then
        [tabs 2 @ ''<calculation type='date_diff'' @ SQ @ field_value
           @ '' unit='' @ quoted (calculationUnit q) @ '' />'' @ NL]
      else [])"

text \<open>
  One static response of the \<open>responses\<close> element.  \<open>response.find(":")\<close> is \<open>-1\<close> for a
  response without a colon; the slices of the source then are \<open>response[:-1]\<close> and
  \<open>response[0:]\<close>.
\<close>

definition static_response :: "string \<Rightarrow> string" where
  "static_response response =
     (let v = (case py_find response '':'' of
                 None \<Rightarrow> butlast response
               | Some index \<Rightarrow> take index response);
          label = (case py_find response '':'' of
                     None \<Rightarrow> py_strip response
                   | Some index \<Rightarrow> py_strip (drop (index + 1) response))
      in tabs 3 @ ''<response value = '' @ quoted v @ ''>'' @ label @ ''</response>'' @ NL)"

text \<open>The strings written for the \<open>responses\<close> element of a question.\<close>

definition responses_xml :: "Question \<Rightarrow> string list" where
  "responses_xml q =
     (let attrs = (if responseSourceType q = CSV
                   then '' source='csv' file='' @ quoted (responseSourceFile q)
                   else if responseSourceType q = DATABASE
                   then '' source='database' table='' @ quoted (responseSourceTable q)
                   else []);
          rs = filter (\<lambda>r. r \<noteq> []) (re_split_lines [] (responses q))
      in
      [tabs 2 @ ''<responses'' @ attrs @ ''>'' @ NL]
      @ map (\<lambda>flt. tabs 3 @ ''<filter column='' @ quoted (column flt)
                      @ '' operator='' @ quoted (filter_operator flt)
                      @ '' value='' @ quoted (filter_value flt) @ ''/>'' @ NL)
          (responseFilters q)
      @ (if responseDisplayColumn q \<noteq> []
         then [tabs 3 @ ''<display column='' @ quoted (responseDisplayColumn q) @ ''/>'' @ NL]
         else [])
      @ (if responseValueColumn q \<noteq> []
         then [tabs 3 @ ''<value column='' @ quoted (responseValueColumn q) @ ''/>'' @ NL]
         else [])
      @ (case responseDistinct q of
           None \<Rightarrow> []
         | Some b \<Rightarrow>
             [tabs 3 @ ''<distinct>'' @ (if b then ''true'' else ''false'')
                @ ''</distinct>'' @ NL])
      @ (if responseEmptyMessage q \<noteq> []
         then [tabs 3 @ ''<empty_message>'' @ responseEmptyMessage q
                 @ ''</empty_message>'' @ NL]
         else [])
      @ (if responseDontKnowValue q \<noteq> []
         then [tabs 3 @ ''<dont_know value='' @ quoted (responseDontKnowValue q)
                 @ (if responseDontKnowLabel q \<noteq> []
                    then '' label='' @ quoted (responseDontKnowLabel q) else [])
                 @ ''/>'' @ NL]
         else [])
      @ (if responseNotInListValue q \<noteq> []
         then [tabs 3 @ ''<not_in_list value='' @ quoted (responseNotInListValue q)
                 @ (if responseNotInListLabel q \<noteq> []
                    then '' label='' @ quoted (responseNotInListLabel q) else [])
                 @ ''/>'' @ NL]
         else [])
      @ (if responseSourceType q = STATIC
         then (if length rs = 0 then [tabs 3 @ ''<response></response>'' @ NL]
               else map static_response rs)
         else [])
      @ [tabs 2 @ ''</responses>'' @ NL])"

text \<open>
  What the body of the loop of \<open>write_xml\<close> writes for one question: a list of writes in
  the order of the source, where a write is the string given to \<open>f.write\<close>, or the
  exception raised while that string is computed.
\<close>

definition question_writes :: "Question \<Rightarrow> (py_exception + string) list" where
  "question_writes q =
     [Inr (tabs 1 @ ''<question type = '' @ quoted (questionType q)
             @ '' fieldname = '' @ quoted (fieldName q)
             @ '' fieldtype = '' @ quoted (fieldType q) @ ''>'' @ NL)]
     @ (if questionType q \<noteq> ''automatic''
        then [Inr (tabs 2 @ ''<text>'' @ questionText q @ ''</text>'' @ NL)]
        else [])
     @ (if questionType q = ''automatic'' \<and> calculationType q \<noteq> NONE
        then map Inr (generate_calculation_xml q)
        else [])
     @ (if maxCharacters q \<noteq> ''-9''
        then [Inr (tabs 2 @ ''<maxCharacters>'' @ maxCharacters q @ ''</maxCharacters>'' @ NL)]
        else [])
     @ (if mask q \<noteq> []
        then [Inr (tabs 2 @ ''<mask value='' @ DQ @ mask q @ DQ @ '' />'' @ NL)]
        else [])
     @ (if uniqueCheckMessage q \<noteq> []
        then [Inr (tabs 2 @ ''<unique_check>'' @ NL),
              Inr (tabs 3 @ ''<message>'' @ uniqueCheckMessage q @ ''</message>'' @ NL),
              Inr (tabs 2 @ ''</unique_check>'' @ NL)]
        else [])
     @ (if questionType q \<noteq> ''date'' \<and> lowerRange q \<noteq> ''-9''
        then [Inr (tabs 2 @ ''<numeric_check>'' @ NL),
              Inr (tabs 3 @ ''<values minvalue ='' @ quoted (lowerRange q)
                     @ '' maxvalue='' @ quoted (upperRange q)
                     @ '' other_values = '' @ quoted (lowerRange q)
                     @ '' message = '' @ SQ @ ''Number must be between '' @ lowerRange q
                     @ '' and '' @ upperRange q @ ''!'' @ SQ @ ''></values>'' @ NL),
              Inr (tabs 2 @ ''</numeric_check>'' @ NL)]
        else [])
     @ (if questionType q = ''date''
        then [Inr (tabs 2 @ ''<date_range>'' @ NL),
              Inr (tabs 3 @ ''<min_date>'' @ lowerRange q @ ''</min_date>'' @ NL),
              Inr (tabs 3 @ ''<max_date>'' @ upperRange q @ ''</max_date>'' @ NL),
              Inr (tabs 2 @ ''</date_range>'' @ NL)]
        else [])
     @ concat (map (\<lambda>logic_check.
          [Inr (tabs 2 @ ''<logic_check>'' @ NL),
           map_sum id (\<lambda>s. s @ NL) (generate_logic_check logic_check),
           Inr (tabs 2 @ ''</logic_check>'' @ NL)]) (logicChecks q))
     @ (if questionType q \<in> {''radio'', ''checkbox'', ''combobox''}
        then map Inr (responses_xml q)
        else [])
     @ (if skip q \<noteq> []
        then
          let skips = filter (\<lambda>s. s \<noteq> []) (re_split_lines [] (skip q));
              pre = filter (\<lambda>s. py_startswith s ''preskip:'') skips;
              post = filter (\<lambda>s. py_startswith s ''postskip:'') skips
          in (if pre \<noteq> []
              then [Inr (tabs 2 @ ''<preskip>'' @ NL)]
                   @ map (\<lambda>s. map_sum id (\<lambda>x. x @ NL) (generate_skip s ''preSkip'')) pre
                   @ [Inr (tabs 2 @ ''</preskip>'' @ NL)]
              else [])
             @ (if post \<noteq> []
                then [Inr (tabs 2 @ ''<postskip>'' @ NL)]
                     @ map (\<lambda>s. map_sum id (\<lambda>x. x @ NL) (generate_skip s ''postSkip'')) post
                     @ [Inr (tabs 2 @ ''</postskip>'' @ NL)]
                else [])
        else [])
     @ (if dontKnow q \<in> {''TRUE'', ''True''}
        then [Inr (tabs 2 @ ''<dont_know>-7</dont_know>'' @ NL)] else [])
     @ (if refuse q \<in> {''TRUE'', ''True''}
        then [Inr (tabs 2 @ ''<refuse>-8</refuse>'' @ NL)] else [])
     @ (if na q \<in> {''TRUE'', ''True''}
        then [Inr (tabs 2 @ ''<na>-6</na>'' @ NL)] else [])
     @ [Inr (tabs 1 @ ''</question>'' @ NL @ NL)]"

text \<open>
  The writes reach the file one after the other; the first exception ends them.  The
  result is what the file holds and the exception that left the method, if any.
\<close>

fun run_writes :: "(py_exception + string) list \<Rightarrow> string list \<times> py_exception option" where
  "run_writes [] = ([], None)"
| "run_writes (Inl e # rest) = ([], Some e)"
| "run_writes (Inr s # rest) = (case run_writes rest of (ws, e) \<Rightarrow> (s # ws, e))"

text \<open>
  \<open>write_xml\<close>: the name of the file in the output directory, the strings written to it,
  and the exception raised, if any.
\<close>

definition write_xml ::
  "string \<Rightarrow> Question list \<Rightarrow> string \<times> string list \<times> py_exception option" where
  "write_xml worksheet_name question_list =
     (let xml_name = (if py_endswith worksheet_name ''_dd''
                      then take (length worksheet_name - 3) worksheet_name
                      else take (length worksheet_name - 4) worksheet_name)
      in (xml_name @ ''.xml'',
          run_writes
            ([Inr (''<?xml version = '1.0' encoding = 'utf-8'?>'' @ NL),
              Inr (''<survey>'' @ NL @ NL)]
             @ concat (map question_writes question_list)
             @ [Inr (tabs 1 @ ''<question type = 'information' fieldname = 'end_of_questions' fieldtype = 'n/a'>'' @ NL),
                Inr (tabs 2 @ ''<text>Press the 'Finish' button to save the data.</text >'' @ NL),
                Inr (tabs 1 @ ''</question>'' @ NL @ NL),
                Inr (''</survey>'' @ NL)])))"

section \<open>The processor (processor.py)\<close>

text \<open>\<open>AppConfig\<close>.\<close>

record AppConfig =
  excelFile :: string
  csvFiles :: string
  outputPath :: string
  surveyName :: string
  surveyId :: string

text \<open>
  The state of a \<open>GiSTXProcessor\<close> object.  Its attributes \<open>errorsEncountered\<close> and
  \<open>logstring\<close> carry the prefix \<open>proc\<close> here, the names being those of the reader's.  The
  dict \<open>question_list_cache\<close> is a list of items in the order of insertion, and the paths
  of \<open>generated_files\<close> are the names of the files in the output directory.
\<close>

record GiSTXProcessor =
  proc_errorsEncountered :: bool
  proc_logstring :: "string list"
  generated_files :: "string list"
  question_list_cache :: "(string \<times> Question list) list"

text \<open>\<open>GiSTXProcessor(config)\<close>.\<close>

definition new_GiSTXProcessor :: GiSTXProcessor where
  "new_GiSTXProcessor = \<lparr> proc_errorsEncountered = False, proc_logstring = [],
     generated_files = [], question_list_cache = [] \<rparr>"

text \<open>\<open>d[key] = v\<close> on a dict: a key already there keeps its place.\<close>

fun dict_set :: "'k \<Rightarrow> 'v \<Rightarrow> ('k \<times> 'v) list \<Rightarrow> ('k \<times> 'v) list" where
  "dict_set k v [] = [(k, v)]"
| "dict_set k v (item # items) =
     (if fst item = k then (k, v) # items else item # dict_set k v items)"

text \<open>
  What a run meets outside the repository: the file system, openpyxl, ElementTree and the
  iteration order of Python's sets.  \<open>workbook\<close> is the list \<open>workbook.worksheets\<close> of the
  workbook \<open>load_workbook\<close> returns, \<open>None\<close> when it raises; \<open>et_parse name lines\<close> is what
  \<open>ET.parse\<close> does on the file of that name and those lines; \<open>file_exists\<close> is
  \<open>Path.exists\<close> on a generated file when the zip file is made; \<open>csv_listing\<close> is the sorted
  list of the \<open>*.csv\<close> files of the directory \<open>csv_dir\<close>, \<open>None\<close> when that is no directory;
  \<open>excel_path\<close>, \<open>zip_path\<close> and \<open>csv_dir\<close> are the paths as \<open>str\<close> prints them.
\<close>

datatype parse_outcome = Parsed | ParseError string | OtherError string

record Environment =
  excel_exists :: bool
  excel_path :: string
  workbook :: "Worksheet list option"
  set_order :: "string list \<Rightarrow> string list"
  et_parse :: "string \<Rightarrow> string list \<Rightarrow> parse_outcome"
  file_exists :: "string \<Rightarrow> bool"
  zip_path :: string
  csv_dir :: string
  csv_listing :: "string list option"

text \<open>
  What a run does, in the order in which it does it: a sheet is read by
  \<open>create_question_list\<close>; an XML file is opened and the lines are written to it (all of
  them, or those before the exception); the manifest is written, with its list of XML
  files and whether a sheet \<open>crfs\<close> was there to be read; the zip file is written with its
  members; a file is deleted; the log file is written.
\<close>

datatype event =
    is_read: CreateQuestionList string
  | WriteXml string "string list"
  | WriteManifest "string list" bool
  | WriteZip "string list"
  | Unlink string
  | WriteLogfile "string list"

text \<open>How \<open>run\<close> ends: with its return code, or with the exception that leaves it.\<close>

datatype outcome = Exit nat | Raised py_exception | WorkbookUnreadable

definition end_of_log :: "string list" where
  "end_of_log =
     [CR @ ''--------------------------------------------------------------------------------'',
      ''End of log file'',
      ''--------------------------------------------------------------------------------'']"

text \<open>The body of the first loop of \<open>run\<close>: a new reader for every sheet.\<close>

definition read_worksheet ::
  "Environment \<Rightarrow> GiSTXProcessor \<times> event list \<Rightarrow> Worksheet
     \<Rightarrow> GiSTXProcessor \<times> event list" where
  "read_worksheet env pe ws =
     (let p = fst pe;
          reader = create_question_list (set_order env) ws new_ExcelReader;
          qlist = questionList reader;
          p1 = (if errorsEncountered reader then p\<lparr>proc_errorsEncountered := True\<rparr> else p);
          p2 = p1\<lparr>proc_logstring := proc_logstring p1 @ logstring reader\<rparr>
      in (p2\<lparr>question_list_cache := dict_set (title ws) qlist (question_list_cache p2)\<rparr>,
          snd pe @ [CreateQuestionList (title ws)]))"

text \<open>\<open>_validate_xml_syntax\<close>: the processor after it, and what it returns.\<close>

definition validate_xml_syntax ::
  "Environment \<Rightarrow> string \<Rightarrow> string list \<Rightarrow> GiSTXProcessor \<Rightarrow> GiSTXProcessor \<times> bool" where
  "validate_xml_syntax env file_name file_lines p =
     (case et_parse env file_name file_lines of
        Parsed \<Rightarrow> (p, True)
      | ParseError ex \<Rightarrow>
          (p\<lparr>proc_logstring := proc_logstring p
                @ [''CRITICAL ERROR: XML Syntax Error in file '' @ quoted file_name,
                   ''Details: '' @ ex]\<rparr>,
           False)
      | OtherError ex \<Rightarrow>
          (p\<lparr>proc_logstring := proc_logstring p
                @ [''CRITICAL ERROR: Could not validate XML file '' @ quoted file_name,
                   ''Details: '' @ ex]\<rparr>,
           False))"

text \<open>
  The loop over \<open>self.question_list_cache.items()\<close>, on the processor, the events so far
  and \<open>xml_files\<close>.  An exception of \<open>write_xml\<close> leaves the loop and \<open>run\<close>; the file then
  holds the lines written before it.
\<close>

fun write_documents ::
  "Environment \<Rightarrow> (string \<times> Question list) list
     \<Rightarrow> GiSTXProcessor \<times> event list \<times> string list
     \<Rightarrow> (GiSTXProcessor \<times> event list \<times> string list) \<times> py_exception option" where
  "write_documents env [] s = (s, None)"
| "write_documents env (item # rest) s =
     (let ws_name = fst item; qlist = snd item;
          p = fst s; evs = fst (snd s);
          xml_name = py_replace (py_replace ws_name ''_dd'' ''.xml'') ''_xml'' ''.xml'';
          xml_files = snd (snd s) @ [xml_name];
          written = write_xml ws_name qlist;
          file_name = fst written; file_lines = fst (snd written)
      in case snd (snd written) of
           Some e \<Rightarrow> ((p, evs @ [WriteXml file_name file_lines], xml_files), Some e)
         | None \<Rightarrow>
             let checked = validate_xml_syntax env file_name file_lines p;
                 p1 = (if \<not> snd checked then (fst checked)\<lparr>proc_errorsEncountered := True\<rparr>
                       else fst checked);
                 p2 = p1\<lparr>generated_files := generated_files p1 @ [file_name]\<rparr>
             in write_documents env rest (p2, evs @ [WriteXml file_name file_lines], xml_files))"

text \<open>
  \<open>_create_zip_file\<close>.  A generated file is deleted once: a name that stands twice in
  \<open>generated_files\<close> is no longer there the second time.
\<close>

definition create_zip_file ::
  "Environment \<Rightarrow> AppConfig \<Rightarrow> GiSTXProcessor \<times> event list
     \<Rightarrow> GiSTXProcessor \<times> event list" where
  "create_zip_file env cfg pe =
     (let p = fst pe;
          present = filter (file_exists env) (generated_files p);
          csvs = (if csvFiles cfg \<noteq> []
                  then (case csv_listing env of Some fs \<Rightarrow> fs | None \<Rightarrow> [])
                  else []);
          csv_log = (if csvFiles cfg \<noteq> []
                     then (case csv_listing env of
                             Some fs \<Rightarrow>
                               if fs \<noteq> []
                               then ['''', ''Adding CSV files to package:'']
                                    @ map (\<lambda>c. ''Added to zip: '' @ c) fs
                               else [''WARNING: No CSV files found in '' @ csv_dir env]
                           | None \<Rightarrow>
                               [''WARNING: CSV files directory not found: '' @ csv_dir env])
                     else []);
          deleted = rev (remdups (rev present))
      in (p\<lparr>proc_logstring := proc_logstring p
              @ map (\<lambda>f. ''Added to zip: '' @ f) present
              @ csv_log
              @ ['''', ''Successfully created zip file: '' @ zip_path env]
              @ map (\<lambda>f. ''Deleted temporary file: '' @ f) deleted\<rparr>,
          snd pe @ [WriteZip (present @ csvs)] @ map Unlink deleted))"

text \<open>
  \<open>run\<close>: how it ends, what it has done, and the processor it leaves.  The sheets whose
  title ends with \<open>_dd\<close> or \<open>_xml\<close> are read first, all of them; the documents, the manifest
  and the zip file stand under the tests on \<open>self.errorsEncountered\<close>.
\<close>

definition run ::
  "Environment \<Rightarrow> AppConfig \<Rightarrow> GiSTXProcessor \<Rightarrow> outcome \<times> event list \<times> GiSTXProcessor" where
  "run env cfg p0 =
     (let p = p0\<lparr>proc_logstring := [''Log file for: '' @ excelFile cfg]\<rparr> in
      if \<not> excel_exists env
      then
        let p1 = p\<lparr>proc_logstring := proc_logstring p
                     @ [''ERROR: Excel file not found!'', excel_path env] @ end_of_log\<rparr>
        in (Exit 1, [WriteLogfile (proc_logstring p1)], p1)
      else
        case workbook env of
          None \<Rightarrow> (WorkbookUnreadable, [], p)
        | Some sheets \<Rightarrow>
            let worksheets = filter (\<lambda>ws. py_endswith (title ws) ''_dd''
                                        \<or> py_endswith (title ws) ''_xml'') sheets;
                pe1 = foldl (read_worksheet env) (p, []) worksheets
            in
            if \<not> proc_errorsEncountered (fst pe1)
            then
              (case write_documents env (question_list_cache (fst pe1))
                      (fst pe1, snd pe1, []) of
                 (s, Some e) \<Rightarrow> (Raised e, fst (snd s), fst s)
               | (s, None) \<Rightarrow>
                   let p2 = fst s;
                       p3 = p2\<lparr>proc_logstring := proc_logstring p2
                                  @ ['''', ''Successfully generated survey_manifest.gistx'']
                                  @ end_of_log,
                               generated_files := generated_files p2
                                  @ [''survey_manifest.gistx'']\<rparr>;
                       evs3 = fst (snd s)
                                @ [WriteManifest (snd (snd s))
                                     (''crfs'' \<in> set (map title sheets))];
                       pe4 = (if \<not> proc_errorsEncountered p3
                              then create_zip_file env cfg (p3, evs3)
                              else (p3, evs3))
                   in (Exit (if proc_errorsEncountered (fst pe4) then 1 else 0),
                       snd pe4 @ [WriteLogfile (proc_logstring (fst pe4))],
                       fst pe4))
            else
              let p3 = (fst pe1)\<lparr>proc_logstring := proc_logstring (fst pe1) @ end_of_log\<rparr>
              in (Exit 1, snd pe1 @ [WriteLogfile (proc_logstring p3)], p3))"

section \<open>Properties of the reader's log\<close>

lemma logstring_reader_error [simp]: "logstring (reader_error st m) = logstring st @ [m]"
  by (simp add: reader_error_def)

lemma questionList_reader_error [simp]: "questionList (reader_error st m) = questionList st"
  by (simp add: reader_error_def)

lemma flags_reader_error [simp]:
  "errorsEncountered (reader_error st m)" "worksheetErrorsEncountered (reader_error st m)"
  by (simp_all add: reader_error_def)

lemma foldl_error_logstring:
  "logstring (foldl (\<lambda>st x. if P x then reader_error st (f x) else st) st xs)
     = logstring st @ [f x. x \<leftarrow> xs, P x]"
  by (induction xs arbitrary: st) simp_all

lemma foldl_error_questionList:
  "questionList (foldl (\<lambda>st x. if P x then reader_error st (f x) else st) st xs)
     = questionList st"
  by (induction xs arbitrary: st) simp_all

lemma log_errors_simps [simp]:
  "log_errors st [] = st"
  "log_errors st (m # ms) = log_errors (reader_error st m) ms"
  by (simp_all add: log_errors_def)

lemma log_errors_append: "log_errors st (a @ b) = log_errors (log_errors st a) b"
  by (simp add: log_errors_def)

lemma logstring_log_errors [simp]: "logstring (log_errors st ms) = logstring st @ ms"
  by (induction ms arbitrary: st) simp_all

lemma questionList_log_errors [simp]: "questionList (log_errors st ms) = questionList st"
  by (induction ms arbitrary: st) simp_all

lemma worksheetErrors_log_errors [simp]:
  "worksheetErrorsEncountered (log_errors st ms) = (worksheetErrorsEncountered st \<or> ms \<noteq> [])"
  by (induction ms arbitrary: st) auto

lemma errors_log_errors [simp]:
  "errorsEncountered (log_errors st ms) = (errorsEncountered st \<or> ms \<noteq> [])"
  by (induction ms arbitrary: st) auto

lemma foldl_log_errors:
  assumes "\<And>st x. x \<in> set xs \<Longrightarrow> body st x = log_errors st (g x)"
  shows "foldl body st xs = log_errors st (concat (map g xs))"
  using assms
proof (induction xs arbitrary: st)
  case Nil
  then show ?case by simp
next
  case (Cons x xs)
  then show ?case by (simp add: log_errors_append)
qed

lemma field_index_snoc:
  "field_index (qs @ [q]) = (field_index qs)(fieldName q \<mapsto> length qs)"
  by (rule ext) (simp add: field_index_def)

lemma field_index_position:
  "i < length qs \<Longrightarrow>
     \<exists>ci. field_index qs (fieldName (qs ! i)) = Some ci \<and> i \<le> ci \<and> ci < length qs
          \<and> fieldName (qs ! ci) = fieldName (qs ! i)"
proof (induction qs rule: rev_induct)
  case Nil
  then show ?case by simp
next
  case (snoc q qs)
  show ?case
  proof (cases "i < length qs")
    case True
    from snoc.IH [OF True] obtain ci where
      ci: "field_index qs (fieldName (qs ! i)) = Some ci" "i \<le> ci" "ci < length qs"
        "fieldName (qs ! ci) = fieldName (qs ! i)" by blast
    show ?thesis
    proof (cases "fieldName q = fieldName (qs ! i)")
      case same: True
      with True show ?thesis
        by (intro exI [of _ "length qs"]) (simp add: field_index_snoc nth_append)
    next
      case False
      with True ci show ?thesis
        by (intro exI [of _ ci]) (simp add: field_index_snoc nth_append)
    qed
  next
    case False
    with snoc.prems have "i = length qs" by simp
    then show ?thesis
      by (intro exI [of _ "length qs"]) (simp add: field_index_snoc nth_append)
  qed
qed

lemma field_index_defined:
  "q \<in> set qs \<Longrightarrow> field_index qs (fieldName q) \<noteq> None"
  using field_index_position by (metis in_set_conv_nth option.distinct(1))

lemma field_index_range:
  "field_index qs name = Some j \<Longrightarrow> j < length qs \<and> fieldName (qs ! j) = name"
proof (induction qs arbitrary: j rule: rev_induct)
  case Nil
  then show ?case by (simp add: field_index_def)
next
  case (snoc q qs)
  then show ?case
    by (auto simp: field_index_snoc nth_append split: if_splits)
qed

subsection \<open>Field names in logic checks\<close>

lemma check_logic_reference_log:
  "check_logic_reference w fi cur st ref =
     log_errors st
       (case fi ref of
          None \<Rightarrow> [msg_logic_nonexistent w cur ref]
        | Some j \<Rightarrow> (case fi cur of None \<Rightarrow> []
                     | Some i \<Rightarrow> if i < j then [msg_logic_after w cur ref] else []))"
  by (simp add: check_logic_reference_def split: option.splits)

lemma check_logic_field_names_log:
  "check_logic_field_names set_iter w st =
     log_errors st
       (concat (map (\<lambda>q. concat (map (\<lambda>lc. concat (map (\<lambda>ref.
          (case field_index (questionList st) ref of
             None \<Rightarrow> [msg_logic_nonexistent w (fieldName q) ref]
           | Some j \<Rightarrow> (case field_index (questionList st) (fieldName q) of None \<Rightarrow> []
                     | Some i \<Rightarrow> if i < j then [msg_logic_after w (fieldName q) ref] else [])))
          (set_iter (logic_references lc)))) (logicChecks q))) (questionList st)))"
  unfolding check_logic_field_names_def Let_def
  by (intro foldl_log_errors check_logic_reference_log)

text \<open>
  Claim C4, amended.  Whenever \<open>_check_logic_field_names\<close> runs, what it adds to the log is
  settled by the identifiers of each logic check: the expression is the text before the
  first semicolon, stripped, with the quoted literals removed; its identifiers are the
  matches of \<open>FIELD_NAME_RE\<close> whose lower-case form is none of and, or, not.  Each of
  them, once for every logic check (in the order the set is iterated), adds the
  "nonexistent FieldName" diagnostic naming it when it is not a field of the sheet, the
  "uses a FieldName AFTER the current question" diagnostic naming it when its position is
  strictly after the current field's, and nothing when it is at or before the current field.
\<close>

theorem logic_references_diagnosed:
  "logstring (check_logic_field_names set_iter w st) =
     logstring st @
       [d. q \<leftarrow> questionList st, lc \<leftarrow> logicChecks q,
           ref \<leftarrow> set_iter
                   [m \<leftarrow> re_findall FIELD_NAME_RE
                          (re_sub QUOTED_STRING_RE [] (py_strip (hd (py_split1 lc '';'')))).
                      py_lower m \<notin> {''and'', ''or'', ''not''}],
           d \<leftarrow> (case field_index (questionList st) ref of
                   None \<Rightarrow> [msg_logic_nonexistent w (fieldName q) ref]
                 | Some j \<Rightarrow>
                     if the (field_index (questionList st) (fieldName q)) < j
                     then [msg_logic_after w (fieldName q) ref]
                     else [])]"
proof -
  have *: "(case field_index (questionList st) (fieldName q) of None \<Rightarrow> []
      | Some i \<Rightarrow> if i < j then [msg_logic_after w (fieldName q) ref] else [])
     = (if the (field_index (questionList st) (fieldName q)) < j
        then [msg_logic_after w (fieldName q) ref] else [])"
    if "q \<in> set (questionList st)" for q ref j
  proof -
    from field_index_defined [OF that] obtain i where
      "field_index (questionList st) (fieldName q) = Some i" by blast
    then show ?thesis by simp
  qed
  show ?thesis
    unfolding check_logic_field_names_log logstring_log_errors
    by (auto simp: * logic_references_def LOGIC_KEYWORDS_def Let_def
          intro!: arg_cong [where f = concat] map_cong split: option.splits)
qed

theorem logic_references_diagnosed_witness:
  "logstring (check_logic_field_names remdups ''s_dd''
      (new_ExcelReader\<lparr>questionList :=
         [new_Question\<lparr>fieldName := ''a'',
            logicChecks := [''b = 1 and zz = 'a or b' or a > 0;'' @ quoted ''m'']\<rparr>,
          new_Question\<lparr>fieldName := ''b'',
            logicChecks := [''a > 1 AND b = 2;'' @ quoted ''m'']\<rparr>]\<rparr>))
   = [''ERROR - LogicCheck: In worksheet 's_dd', the LogicCheck for FieldName 'a' uses a FieldName AFTER the current question: b'',
      ''ERROR - LogicCheck: In worksheet 's_dd', the LogicCheck for FieldName 'a' uses a nonexistent FieldName: zz'']"
  by (rule trans [OF logic_references_diagnosed]) code_simp


text \<open>
  The claim as stated keeps every identifier that is not one of and, or, not.  The source
  compares the lower-case form: \<open>AND\<close> is matched by the pattern, is none of the three
  words and is not a field, and yet no diagnostic is logged for it.
\<close>

theorem logic_keyword_case_counterexample:
  "''AND'' \<in> set (re_findall FIELD_NAME_RE
        (re_sub QUOTED_STRING_RE []
           (py_strip (hd (py_split1 (''a = 1 AND a = 2;'' @ quoted ''m'') '';'')))))
   \<and> ''AND'' \<notin> {''and'', ''or'', ''not''}
   \<and> field_index [new_Question\<lparr>fieldName := ''a'',
          logicChecks := [''a = 1 AND a = 2;'' @ quoted ''m'']\<rparr>] ''AND'' = None
   \<and> logstring (check_logic_field_names remdups ''s_dd''
        (new_ExcelReader\<lparr>questionList :=
           [new_Question\<lparr>fieldName := ''a'',
              logicChecks := [''a = 1 AND a = 2;'' @ quoted ''m'']\<rparr>]\<rparr>)) = []"
  by code_simp


subsection \<open>Skip targets\<close>

lemma check_skip_line_log:
  "check_skip_line w fi cur st line =
     log_errors st
       (if length (skip_words line) < 4 then [msg_skip_structure w cur line]
        else (case fi cur of
                None \<Rightarrow> []
              | Some ci \<Rightarrow>
                 (case fi (py_strip_chars '','' (py_strip (skip_words line ! 2))) of
                    None \<Rightarrow> [msg_skip_check_nonexistent w cur
                               (py_strip_chars '','' (py_strip (skip_words line ! 2)))]
                  | Some k \<Rightarrow>
                      if ci < k
                      then [msg_skip_check_after w cur
                              (py_strip_chars '','' (py_strip (skip_words line ! 2)))]
                      else [])
                 @ (case fi (py_strip (last (skip_words line))) of
                      None \<Rightarrow> [msg_skip_to_nonexistent w cur (py_strip (last (skip_words line)))]
                    | Some j \<Rightarrow>
                        if j < ci
                        then [msg_skip_to_before w cur (py_strip (last (skip_words line)))]
                        else if j = ci
                        then [msg_skip_to_self w cur (py_strip (last (skip_words line)))]
                        else [])))"
  by (simp add: check_skip_line_def Let_def log_errors_append split: option.splits)

lemma split_lines_empty [simp]: "split_lines [] = []"
  by (simp add: split_lines_def)

lemma check_skip_to_field_names_log:
  "check_skip_to_field_names w st =
     log_errors st
       (concat (map (\<lambda>q. concat (map (\<lambda>line.
          (if length (skip_words line) < 4 then [msg_skip_structure w (fieldName q) line]
        else (case field_index (questionList st) (fieldName q) of
                None \<Rightarrow> []
              | Some ci \<Rightarrow>
                 (case field_index (questionList st) (py_strip_chars '','' (py_strip (skip_words line ! 2))) of
                    None \<Rightarrow> [msg_skip_check_nonexistent w (fieldName q)
                               (py_strip_chars '','' (py_strip (skip_words line ! 2)))]
                  | Some k \<Rightarrow>
                      if ci < k
                      then [msg_skip_check_after w (fieldName q)
                              (py_strip_chars '','' (py_strip (skip_words line ! 2)))]
                      else [])
                 @ (case field_index (questionList st) (py_strip (last (skip_words line))) of
                      None \<Rightarrow> [msg_skip_to_nonexistent w (fieldName q) (py_strip (last (skip_words line)))]
                    | Some j \<Rightarrow>
                        if j < ci
                        then [msg_skip_to_before w (fieldName q) (py_strip (last (skip_words line)))]
                        else if j = ci
                        then [msg_skip_to_self w (fieldName q) (py_strip (last (skip_words line)))]
                        else [])))) (split_lines (skip q)))) (questionList st)))"
  unfolding check_skip_to_field_names_def Let_def
proof (rule foldl_log_errors, goal_cases)
  case (1 st' q)
  show ?case
  proof (cases "skip q = []")
    case True
    then show ?thesis by simp
  next
    case False
    then show ?thesis
      by (simp add: foldl_log_errors [OF check_skip_line_log])
  qed
qed


lemma skip_messages_distinct:
  "msg_skip_to_before w c t \<noteq> msg_skip_to_self w c t"
  "msg_skip_to_before w c t \<noteq> msg_skip_to_nonexistent w c t"
  "msg_skip_to_self w c t \<noteq> msg_skip_to_nonexistent w c t"
  by (simp_all add: msg_skip_to_before_def msg_skip_to_self_def msg_skip_to_nonexistent_def)

text \<open>
  Claim C3.  Let \<open>q\<close> be the question at position \<open>i\<close> of the sheet, \<open>line\<close> a line of its
  skip cell and \<open>target\<close> the last word of the line, and let \<open>_check_skip_to_field_names\<close>
  run.  A line of fewer than four words logs the "invalid structure" diagnostic.  Otherwise
  a target that is no field logs "skips to a nonexistent FieldName", a target whose position
  is before the current field's logs "skips to a FieldName BEFORE the current question" and
  a target at the current field's position logs "skips to the current question"; the three
  diagnostics are different.  The current field's position \<open>ci\<close> is the one the index gives
  its name (the last, when a name is repeated), so \<open>i \<le> ci\<close>: a target at a position up to
  \<open>i\<close> is always diagnosed.  Hence when the pass leaves the sheet free of errors the target
  of every skip line is a field positioned strictly after \<open>i\<close>.
\<close>

theorem skip_target_positions:
  assumes fi: "fi = field_index (questionList st)"
    and st': "st' = check_skip_to_field_names w st"
    and i: "i < length (questionList st)"
    and q: "q = questionList st ! i"
    and line: "line \<in> set (split_lines (skip q))"
    and target: "target = py_strip (last (skip_words line))"
    and ci: "ci = the (fi (fieldName q))"
  shows "(length (skip_words line) < 4 \<longrightarrow>
            msg_skip_structure w (fieldName q) line \<in> set (logstring st'))
       \<and> (4 \<le> length (skip_words line) \<longrightarrow>
            (fi target = None \<longrightarrow>
               msg_skip_to_nonexistent w (fieldName q) target \<in> set (logstring st'))
          \<and> (\<forall>j. fi target = Some j \<and> j < ci \<longrightarrow>
               msg_skip_to_before w (fieldName q) target \<in> set (logstring st'))
          \<and> (fi target = Some ci \<longrightarrow>
               msg_skip_to_self w (fieldName q) target \<in> set (logstring st')))
       \<and> i \<le> ci
       \<and> msg_skip_to_before w (fieldName q) target \<noteq> msg_skip_to_self w (fieldName q) target
       \<and> msg_skip_to_before w (fieldName q) target
            \<noteq> msg_skip_to_nonexistent w (fieldName q) target
       \<and> msg_skip_to_self w (fieldName q) target
            \<noteq> msg_skip_to_nonexistent w (fieldName q) target
       \<and> (\<not> worksheetErrorsEncountered st' \<longrightarrow>
            4 \<le> length (skip_words line) \<and> (\<exists>j. fi target = Some j \<and> i < j))"
proof -
  define D where "D = (\<lambda>(q::Question) line.
          (if length (skip_words line) < 4 then [msg_skip_structure w (fieldName q) line]
        else (case field_index (questionList st) (fieldName q) of
                None \<Rightarrow> []
              | Some ci \<Rightarrow>
                 (case field_index (questionList st) (py_strip_chars '','' (py_strip (skip_words line ! 2))) of
                    None \<Rightarrow> [msg_skip_check_nonexistent w (fieldName q)
                               (py_strip_chars '','' (py_strip (skip_words line ! 2)))]
                  | Some k \<Rightarrow>
                      if ci < k
                      then [msg_skip_check_after w (fieldName q)
                              (py_strip_chars '','' (py_strip (skip_words line ! 2)))]
                      else [])
                 @ (case field_index (questionList st) (py_strip (last (skip_words line))) of
                      None \<Rightarrow> [msg_skip_to_nonexistent w (fieldName q) (py_strip (last (skip_words line)))]
                    | Some j \<Rightarrow>
                        if j < ci
                        then [msg_skip_to_before w (fieldName q) (py_strip (last (skip_words line)))]
                        else if j = ci
                        then [msg_skip_to_self w (fieldName q) (py_strip (last (skip_words line)))]
                        else []))))"
  have log: "st' = log_errors st
      (concat (map (\<lambda>q. concat (map (D q) (split_lines (skip q)))) (questionList st)))"
    unfolding D_def st' by (rule check_skip_to_field_names_log)
  have qin: "q \<in> set (questionList st)"
    using i q by simp
  from field_index_position [OF i] obtain c where
    c: "fi (fieldName q) = Some c" "i \<le> c"
    unfolding fi q by blast
  then have cic: "ci = c" using ci by simp
  have sub: "set (D q line) \<subseteq> set (logstring st')"
    unfolding log using qin line by auto
  have Dshort: "D q line = [msg_skip_structure w (fieldName q) line]"
    if "length (skip_words line) < 4"
    using that by (simp add: D_def)
  have Dlong: "\<exists>pre. D q line = pre @
           (case fi target of
              None \<Rightarrow> [msg_skip_to_nonexistent w (fieldName q) target]
            | Some j \<Rightarrow>
                if j < ci then [msg_skip_to_before w (fieldName q) target]
                else if j = ci then [msg_skip_to_self w (fieldName q) target]
                else [])"
    if "4 \<le> length (skip_words line)"
    using that c unfolding cic target D_def fi [symmetric] by (simp del: append_eq_append_conv)
  have noerr: "D q line = []" if "\<not> worksheetErrorsEncountered st'"
    using that qin line unfolding log by auto
  have p1: "length (skip_words line) < 4 \<longrightarrow>
            msg_skip_structure w (fieldName q) line \<in> set (logstring st')"
    using Dshort sub by auto
  have p2: "4 \<le> length (skip_words line) \<longrightarrow>
            (fi target = None \<longrightarrow>
               msg_skip_to_nonexistent w (fieldName q) target \<in> set (logstring st'))
          \<and> (\<forall>j. fi target = Some j \<and> j < ci \<longrightarrow>
               msg_skip_to_before w (fieldName q) target \<in> set (logstring st'))
          \<and> (fi target = Some ci \<longrightarrow>
               msg_skip_to_self w (fieldName q) target \<in> set (logstring st'))"
  proof
    assume "4 \<le> length (skip_words line)"
    from Dlong [OF this] obtain pre where
      "D q line = pre @
           (case fi target of
              None \<Rightarrow> [msg_skip_to_nonexistent w (fieldName q) target]
            | Some j \<Rightarrow>
                if j < ci then [msg_skip_to_before w (fieldName q) target]
                else if j = ci then [msg_skip_to_self w (fieldName q) target]
                else [])" by blast
    with sub show "(fi target = None \<longrightarrow>
               msg_skip_to_nonexistent w (fieldName q) target \<in> set (logstring st'))
          \<and> (\<forall>j. fi target = Some j \<and> j < ci \<longrightarrow>
               msg_skip_to_before w (fieldName q) target \<in> set (logstring st'))
          \<and> (fi target = Some ci \<longrightarrow>
               msg_skip_to_self w (fieldName q) target \<in> set (logstring st'))"
      by (auto split: option.splits)
  qed
  have p3: "\<not> worksheetErrorsEncountered st' \<longrightarrow>
            4 \<le> length (skip_words line) \<and> (\<exists>j. fi target = Some j \<and> i < j)"
  proof
    assume ne: "\<not> worksheetErrorsEncountered st'"
    have len: "4 \<le> length (skip_words line)"
      using noerr [OF ne] Dshort by (cases "length (skip_words line) < 4") auto
    from Dlong [OF len] noerr [OF ne] have
      "(case fi target of
              None \<Rightarrow> [msg_skip_to_nonexistent w (fieldName q) target]
            | Some j \<Rightarrow>
                if j < ci then [msg_skip_to_before w (fieldName q) target]
                else if j = ci then [msg_skip_to_self w (fieldName q) target]
                else []) = []" by auto
    then have "\<exists>j. fi target = Some j \<and> ci < j"
      by (auto split: option.splits if_splits)
    with c cic len show "4 \<le> length (skip_words line) \<and> (\<exists>j. fi target = Some j \<and> i < j)"
      by auto
  qed
  from p1 p2 p3 c cic skip_messages_distinct show ?thesis by blast
qed


theorem skip_target_positions_witness:
  "msg_skip_to_self ''s_dd'' ''b'' ''b''
     \<in> set (logstring (check_skip_to_field_names ''s_dd''
           (new_ExcelReader\<lparr>questionList :=
              [new_Question\<lparr>fieldName := ''a''\<rparr>,
               new_Question\<lparr>fieldName := ''b'', skip := ''postskip: if a = 1, b''\<rparr>]\<rparr>)))"
proof -
  let ?st = "new_ExcelReader\<lparr>questionList :=
              [new_Question\<lparr>fieldName := ''a''\<rparr>,
               new_Question\<lparr>fieldName := ''b'', skip := ''postskip: if a = 1, b''\<rparr>]\<rparr>"
  let ?q = "questionList ?st ! 1"
  let ?line = "''postskip: if a = 1, b''"
  have a3: "1 < length (questionList ?st)" by code_simp
  have a5: "?line \<in> set (split_lines (skip ?q))" by code_simp
  have len: "4 \<le> length (skip_words ?line)" by code_simp
  have tgt: "field_index (questionList ?st) (py_strip (last (skip_words ?line)))
               = Some (the (field_index (questionList ?st) (fieldName ?q)))" by code_simp
  have nm: "fieldName ?q = ''b''" "py_strip (last (skip_words ?line)) = ''b''"
    by code_simp+
  from skip_target_positions [OF refl refl a3 refl a5 refl refl, of "''s_dd''"] len tgt
  show ?thesis by (simp add: nm)
qed

subsection \<open>Required MaxCharacters\<close>

text \<open>
  Claim C9.  Whenever \<open>_check_required_max_characters\<close> runs, the diagnostics it adds to the
  log are exactly the "needs a value" messages of the questions whose fieldType is one of
  text, text\_integer, phone\_num, whose questionType is none of automatic, checkbox,
  combobox, and whose maxCharacters is the unset sentinel \<open>-9\<close>, in the order of the sheet;
  a question with any other combination adds nothing.
\<close>

theorem required_max_characters_exact:
  "logstring (check_required_max_characters w st) =
     logstring st @
       [msg_needs_max_characters w (fieldName q). q \<leftarrow> questionList st,
          fieldType q \<in> {''text'', ''text_integer'', ''phone_num''}
          \<and> questionType q \<notin> {''automatic'', ''checkbox'', ''combobox''}
          \<and> maxCharacters q = ''-9'']"
  unfolding check_required_max_characters_def by (rule foldl_error_logstring)

theorem required_max_characters_witness:
  "logstring (check_required_max_characters ''s_dd''
      (new_ExcelReader\<lparr>questionList :=
         [new_Question\<lparr>fieldName := ''name'', questionType := ''text'',
             fieldType := ''text'', maxCharacters := ''-9''\<rparr>,
          new_Question\<lparr>fieldName := ''sex'', questionType := ''combobox'',
             fieldType := ''text'', maxCharacters := ''-9''\<rparr>,
          new_Question\<lparr>fieldName := ''town'', questionType := ''text'',
             fieldType := ''text'', maxCharacters := ''80''\<rparr>,
          new_Question\<lparr>fieldName := ''age'', questionType := ''text'',
             fieldType := ''integer'', maxCharacters := ''-9''\<rparr>]\<rparr>))
   = [''ERROR - MaxCharacters: In worksheet 's_dd', MaxCharacters for FieldName 'name' needs a value'']"
  using required_max_characters_exact [of "''s_dd''"
      "new_ExcelReader\<lparr>questionList :=
         [new_Question\<lparr>fieldName := ''name'', questionType := ''text'',
             fieldType := ''text'', maxCharacters := ''-9''\<rparr>,
          new_Question\<lparr>fieldName := ''sex'', questionType := ''combobox'',
             fieldType := ''text'', maxCharacters := ''-9''\<rparr>,
          new_Question\<lparr>fieldName := ''town'', questionType := ''text'',
             fieldType := ''text'', maxCharacters := ''80''\<rparr>,
          new_Question\<lparr>fieldName := ''age'', questionType := ''text'',
             fieldType := ''integer'', maxCharacters := ''-9''\<rparr>]\<rparr>"]
  by (simp add: new_Question_def new_ExcelReader_def msg_needs_max_characters_def
        quoted_def SQ_def)

subsection \<open>The shape of a field name\<close>

lemma py_contains_single: "py_contains s [c] = (c \<in> set s)"
  by (induction s) (auto simp: py_startswith_def)

lemma space_not_alnum: "\<not> py_isalnum (CHR '' '')"
  by (simp add: py_isalnum_def py_isdigit_def py_isupper_def py_islower_def py_code_def)

lemma valid_chars_no_space:
  "\<not> list_ex (\<lambda>c. \<not> py_isalnum c \<and> c \<noteq> CHR ''_'') s \<Longrightarrow> \<not> py_contains s '' ''"
  using space_not_alnum by (auto simp: py_contains_single list_ex_iff)

text \<open>
  Claim C5, amended.  For a field name that is not empty the shape rules are evaluated in
  the order of the source: starts with a digit, contains a character other than a letter,
  a digit or an underscore, is not all lowercase, starts with an underscore.  Only the
  first rule that matches logs its diagnostic, which ends with the name; a name that
  matches none logs nothing.  The rule "contains a space" comes last in the source and
  never logs: a space is already an invalid character.
\<close>

theorem check_field_name_first_rule:
  assumes "fieldname \<noteq> []"
  shows "logstring (check_field_name w fieldname st) =
     logstring st @
       (if py_isdigit (hd fieldname) then [msg_starts_with_number w fieldname]
        else if list_ex (\<lambda>c. \<not> py_isalnum c \<and> c \<noteq> CHR ''_'') fieldname
          then [msg_invalid_fieldname w fieldname]
        else if fieldname \<noteq> py_lower fieldname then [msg_not_lowercase w fieldname]
        else if hd fieldname = CHR ''_'' then [msg_starts_with_underscore w fieldname]
        else [])"
proof (cases fieldname)
  case Nil
  with assms show ?thesis by simp
next
  case (Cons c cs)
  have "list_ex (\<lambda>c. \<not> py_isalnum c \<and> c \<noteq> CHR ''_'') fieldname
        \<or> \<not> py_contains fieldname '' ''"
    using valid_chars_no_space by blast
  then show ?thesis
    unfolding Cons by (auto simp: check_field_name_def)
qed

theorem check_field_name_first_rule_witness:
  "''_a1'' \<noteq> [] \<and>
   logstring (check_field_name ''s_dd'' ''_a1'' new_ExcelReader) =
     [''ERROR - FieldName: s_dd has a FieldName that starts with an underscore: _a1'']"
proof -
  have h: "''_a1'' \<noteq> []" by simp
  show ?thesis
    using check_field_name_first_rule [OF h, of "''s_dd''" new_ExcelReader]
    by (simp add: new_ExcelReader_def msg_starts_with_underscore_def py_lower_def
          py_lower_char_def py_isalnum_def py_isdigit_def py_isupper_def py_islower_def
          py_code_def)
qed

text \<open>
  The claim as stated puts the underscore rule second.  The name \<open>_A\<close> starts with an
  underscore and is not all lowercase: the source logs the lowercase diagnostic, not the
  underscore one.
\<close>

theorem check_field_name_order_counterexample:
  "logstring (check_field_name ''s_dd'' ''_A'' new_ExcelReader) =
     [''ERROR - FieldName: s_dd has a FieldName that is not all lowercase: _A'']
   \<and> logstring (check_field_name ''s_dd'' ''_A'' new_ExcelReader) \<noteq>
     [msg_starts_with_underscore ''s_dd'' ''_A'']"
  by (simp add: check_field_name_def new_ExcelReader_def msg_not_lowercase_def
        msg_starts_with_underscore_def py_lower_def
        py_lower_char_def py_isalnum_def py_isdigit_def py_isupper_def py_islower_def
        py_code_def)

section \<open>Properties of the directive parsers\<close>

text \<open>
  Claim C6 fails on the source.  In \<open>FILTER_MATCH_RE\<close> the alternative \<open>>\<close> stands before
  \<open>>=\<close> (and \<open><\<close> before \<open><=\<close>), and what follows the operator is matched by \<open>.+\<close>: on
  \<open>code >= 3\<close> the operator group takes \<open>>\<close> and the third group takes \<open>= 3\<close>.  The
  directive \<open>filter:code >= 3\<close> gives the filter with operator \<open>&gt;\<close> and value \<open>= 3\<close>, and
  no diagnostic; the claim says operator \<open>&gt;=\<close> and value \<open>3\<close>.
\<close>

theorem filter_ge_operator_lost:
  "responseFilters (snd (parse_dynamic_responses
       (''source:csv'' @ NL @ ''file:colors.csv'' @ NL @ ''filter:code >= 3'')
       new_Question ''s_dd'' ''colour'' new_ExcelReader))
     = [Filter ''code'' ''= 3'' ''&gt;'']
   \<and> logstring (fst (parse_dynamic_responses
       (''source:csv'' @ NL @ ''file:colors.csv'' @ NL @ ''filter:code >= 3'')
       new_Question ''s_dd'' ''colour'' new_ExcelReader)) = []"
  by code_simp


section \<open>Properties of the emitter\<close>

lemma tabs_2 [simp]: "tabs 2 = [CHR 0x09, CHR 0x09]"
  by (simp add: tabs_def TAB_def numeral_2_eq_2)

lemma tabs_1 [simp]: "tabs 1 = [CHR 0x09]"
  by (simp add: tabs_def TAB_def)

lemma tabs_3 [simp]: "tabs 3 = [CHR 0x09, CHR 0x09, CHR 0x09]"
  by (simp add: tabs_def TAB_def numeral_3_eq_3)

lemma tabs_Suc: "tabs (Suc n) = CHR 0x09 # tabs n"
  by (simp add: tabs_def TAB_def)

lemma tabs_Suc_0 [simp]: "tabs (Suc 0) = [CHR 0x09]"
  by (simp add: tabs_def TAB_def)




























subsection \<open>Skip lines with the operator \<open>does not contain\<close>\<close>

lemma space_indices_from_word:
  "CHR '' '' \<notin> set w \<Longrightarrow>
     space_indices_from n (w @ r) = space_indices_from (n + length w) r"
  by (induction w arbitrary: n) auto

lemma space_indices_from_nospace:
  "CHR '' '' \<notin> set w \<Longrightarrow> space_indices_from n w = []"
  by (induction w arbitrary: n) auto

lemma slice_at: "n = length x \<Longrightarrow> m = length x + length v \<Longrightarrow> py_slice (x @ v @ y) n m = v"
  by (simp add: py_slice_def)

lemma drop_at: "n = length x \<Longrightarrow> drop n (x @ y) = y"
  by simp

lemma generate_skip_template:
  assumes pre: "(pre = ''preskip'' \<and> ty = ''preSkip'') \<or> (pre = ''postskip'' \<and> ty = ''postSkip'')"
    and ns: "CHR '' '' \<notin> set f" "CHR '' '' \<notin> set v" "CHR '' '' \<notin> set w1"
      "CHR '' '' \<notin> set w2" "CHR '' '' \<notin> set t"
  shows "generate_skip
           (pre @ '': if '' @ f @ '' does not contain '' @ v @ '', '' @ w1 @ '' '' @ w2
              @ '' '' @ t) ty =
         Inr (tabs 3 @ ''<skip fieldname='' @ quoted f
                @ '' condition = 'does not contain' response='' @ quoted v
                @ '' response_type='fixed' skiptofieldname ='' @ quoted t @ ''></skip>'')"
proof -
  let ?rest = "f @ '' does not contain '' @ v @ '', '' @ w1 @ '' '' @ w2 @ '' '' @ t"
  let ?skip = "pre @ '': if '' @ ?rest"
  let ?p = "length pre + 5"
  have np: "CHR '' '' \<notin> set pre" using pre by auto
  have sp: "space_indices ?skip =
     [length pre + 1, length pre + 4, ?p + length f, ?p + length f + 5, ?p + length f + 9,
      ?p + length f + 17, ?p + length f + length v + 19,
      ?p + length f + length v + length w1 + 20,
      ?p + length f + length v + length w1 + length w2 + 21]"
    using np ns
    by (simp add: space_indices_def space_indices_from_word space_indices_from_nospace
          add.commute add.left_commute)
  have len_skip: "(if ty = ''postSkip'' then 13 else 12 :: nat) = ?p"
    using pre by auto
  have e1: "?skip = (pre @ '': if '') @ f
      @ ('' does not contain '' @ v @ '', '' @ w1 @ '' '' @ w2 @ '' '' @ t)"
    by simp
  have e2: "?skip = (pre @ '': if '' @ f @ '' does not contain '') @ v
      @ ('', '' @ w1 @ '' '' @ w2 @ '' '' @ t)"
    by simp
  have e3: "?skip = (pre @ '': if '' @ f @ '' does not contain '' @ v @ '', '' @ w1
        @ '' '' @ w2 @ '' '') @ t"
    by simp
  have f: "py_slice ?skip ?p (?p + length f) = f"
    by (subst e1, rule slice_at) simp_all
  have v: "py_slice ?skip (?p + length f + 17 + 1) (?p + length f + length v + 19 - 1) = v"
    by (subst e2, rule slice_at) simp_all
  have t: "drop (?p + length f + length v + length w1 + length w2 + 21 + 1) ?skip = t"
    by (subst e3, rule drop_at) simp
  have l9: "length (space_indices ?skip) = 9" unfolding sp by simp
  have i2: "space_indices ?skip ! 2 = ?p + length f" unfolding sp by simp
  have i5: "space_indices ?skip ! 5 = ?p + length f + 17" unfolding sp by simp
  have i6: "space_indices ?skip ! 6 = ?p + length f + length v + 19" unfolding sp by simp
  have la: "last (space_indices ?skip) = ?p + length f + length v + length w1 + length w2 + 21"
    unfolding sp by simp
  show ?thesis
    unfolding generate_skip_def Let_def len_skip l9 i2 i5 i6 la f v t
    by (simp add: quoted_def SQ_def)
qed


lemma startswith_single: "py_startswith (x # xs) [c] = (x = c)"
  by (simp add: py_startswith_def)

lemma split_aux_single_none:
  "c \<notin> set a \<Longrightarrow> py_split_aux [c] cur a = [rev cur @ a]"
  by (induction a arbitrary: cur) (auto simp: startswith_single)

lemma split_aux_single_at:
  "c \<notin> set a \<Longrightarrow> py_split_aux [c] cur (a @ c # b) = (rev cur @ a) # py_split_aux [c] [] b"
  by (induction a arbitrary: cur) (auto simp: startswith_single)

lemma split_single_at:
  "c \<notin> set a \<Longrightarrow> py_split (a @ c # b) [c] = a # py_split b [c]"
  by (simp add: py_split_def split_aux_single_at)

lemma split_single_none: "c \<notin> set a \<Longrightarrow> py_split a [c] = [a]"
  by (simp add: py_split_def split_aux_single_none)

lemma find_from_single:
  "c \<notin> set a \<Longrightarrow> py_find_from n (a @ c # b) [c] = Some (n + length a)"
  by (induction a arbitrary: n) (auto simp: startswith_single)

lemma contains_infix: "py_contains (a @ sub @ b) sub"
proof (induction a)
  case Nil
  show ?case
  proof (cases "sub @ b")
    case Nil
    then show ?thesis by simp
  next
    case (Cons x xs)
    have "py_startswith (sub @ b) sub" by (simp add: py_startswith_def)
    then show ?thesis unfolding Cons append_Nil by simp
  qed
next
  case (Cons x a)
  then show ?case by simp
qed

lemma check_skip_lines_template:
  assumes pre: "pre = ''preskip'' \<or> pre = ''postskip''"
    and ns: "CHR '' '' \<notin> set f" "CHR '' '' \<notin> set v" "CHR '' '' \<notin> set w1"
      "CHR '' '' \<notin> set w2" "CHR '' '' \<notin> set t"
    and nc: "CHR '','' \<notin> set f" "CHR '','' \<notin> set v" "CHR '','' \<notin> set w1"
      "CHR '','' \<notin> set w2" "CHR '','' \<notin> set t"
    and nk: "CHR '':'' \<notin> set f" "CHR '':'' \<notin> set v"
  shows "check_skip_lines w fn
           [pre @ '': if '' @ f @ '' does not contain '' @ v @ '', '' @ w1 @ '' '' @ w2
              @ '' '' @ t] st = st"
proof -
  let ?ls = "pre @ '': if '' @ f @ '' does not contain '' @ v"
  let ?tail = "'' '' @ w1 @ '' '' @ w2 @ '' '' @ t"
  let ?skip = "pre @ '': if '' @ f @ '' does not contain '' @ v @ '', '' @ w1 @ '' '' @ w2
              @ '' '' @ t"
  let ?p = "length pre + 5"
  have np: "CHR '' '' \<notin> set pre" "CHR '','' \<notin> set pre" "CHR '':'' \<notin> set pre"
    using pre by auto
  have sk: "?skip = ?ls @ CHR '','' # ?tail" by simp
  have find: "py_find ?skip '':'' = Some (length pre)"
    using find_from_single [OF np(3), of 0 "'' if '' @ f @ '' does not contain '' @ v @ '', '' @ w1 @ '' '' @ w2 @ '' '' @ t"]
    by (simp add: py_find_def)
  have ps: "py_split ?skip '','' = [?ls, ?tail]"
    unfolding sk using np nc
    by (subst split_single_at) (auto simp: split_single_none)
  have lstr: "py_split ?ls '':'' = [pre, '' if '' @ f @ '' does not contain '' @ v]"
    using split_single_at [OF np(3), of "'' if '' @ f @ '' does not contain '' @ v"] nk
    by (simp add: split_single_none)
  have ltok: "py_split ?ls '' '' =
      [pre @ '':'', ''if'', f, ''does'', ''not'', ''contain'', v]"
  proof -
    have a: "py_split ?ls '' '' = (pre @ '':'') # py_split (''if '' @ f @ '' does not contain '' @ v) '' ''"
      using split_single_at [of "CHR '' ''" "pre @ '':''" "''if '' @ f @ '' does not contain '' @ v"] np
      by simp
    have b: "py_split (''if '' @ f @ '' does not contain '' @ v) '' ''
          = ''if'' # py_split (f @ '' does not contain '' @ v) '' ''"
      using split_single_at [of "CHR '' ''" "''if''" "f @ '' does not contain '' @ v"] by simp
    have c: "py_split (f @ '' does not contain '' @ v) '' ''
          = f # py_split (''does not contain '' @ v) '' ''"
      using split_single_at [OF ns(1), of "''does not contain '' @ v"] by simp
    have d: "py_split (''does not contain '' @ v) '' '' = ''does'' # py_split (''not contain '' @ v) '' ''"
      using split_single_at [of "CHR '' ''" "''does''" "''not contain '' @ v"] by simp
    have e: "py_split (''not contain '' @ v) '' '' = ''not'' # py_split (''contain '' @ v) '' ''"
      using split_single_at [of "CHR '' ''" "''not''" "''contain '' @ v"] by simp
    have g: "py_split (''contain '' @ v) '' '' = ''contain'' # py_split v '' ''"
      using split_single_at [of "CHR '' ''" "''contain''" v] by simp
    show ?thesis unfolding a b c d e g using ns by (simp add: split_single_none)
  qed
  have dnc: "py_contains ?ls ''does not contain''"
    using contains_infix [of "pre @ '': if '' @ f @ '' ''" "''does not contain''" "'' '' @ v"]
    by simp
  have sp: "space_indices ?skip =
     [length pre + 1, length pre + 4, ?p + length f, ?p + length f + 5, ?p + length f + 9,
      ?p + length f + 17, ?p + length f + length v + 19,
      ?p + length f + length v + length w1 + 20,
      ?p + length f + length v + length w1 + length w2 + 21]"
    using np ns
    by (simp add: space_indices_def space_indices_from_word space_indices_from_nospace
          add.commute add.left_commute)
  have l9: "length (space_indices ?skip) = 9" unfolding sp by simp
  have i2: "space_indices ?skip ! 2 = ?p + length f" unfolding sp by simp
  have e1: "?skip = (pre @ '': if '') @ f
      @ ('' does not contain '' @ v @ '', '' @ w1 @ '' '' @ w2 @ '' '' @ t)"
    by simp
  have lenskip: "(if (if take (length pre) ?skip = ''preskip'' then ''preskip'' else ''postskip'')
                     = ''postskip'' then 13 else 12 :: nat) = ?p"
    using pre by auto
  have fchk: "py_slice ?skip ?p (?p + length f) = f"
    by (subst e1, rule slice_at) simp_all
  have nof: "\<not> py_contains f '' ''" using ns(1) by (simp add: py_contains_single)
  show ?thesis
    apply (subst check_skip_lines.simps)
    unfolding find option.case Let_def ps lenskip
    apply (simp only: nth_Cons_0 lstr ltok dnc l9 i2 fchk nof)
    apply simp
    done
qed

text \<open>
  \<open>_generate_skip\<close> takes the offsets of \<open>does not contain\<close> when the line holds nine
  spaces, which is the layout
  \<open><preskip|postskip>: if <field> does not contain <operand>, <word> <word> <target>\<close>
  (as in \<open>, skip to <target>\<close>).  On every line of this layout, the five parts free of
  spaces and commas and the field and the operand free of colons, \<open>_check_skip_syntax\<close>
  logs nothing and the emitter recovers the field, the condition \<open>does not contain\<close>, the
  operand and the target.
\<close>

lemma does_not_contain_nine_spaces:
  assumes "(pre = ''preskip'' \<and> ty = ''preSkip'') \<or> (pre = ''postskip'' \<and> ty = ''postSkip'')"
    and "CHR '' '' \<notin> set f" "CHR '' '' \<notin> set v" "CHR '' '' \<notin> set w1"
      "CHR '' '' \<notin> set w2" "CHR '' '' \<notin> set t"
    and "CHR '','' \<notin> set f" "CHR '','' \<notin> set v" "CHR '','' \<notin> set w1"
      "CHR '','' \<notin> set w2" "CHR '','' \<notin> set t"
    and "CHR '':'' \<notin> set f" "CHR '':'' \<notin> set v"
  shows "check_skip_lines w fn
           [pre @ '': if '' @ f @ '' does not contain '' @ v @ '', '' @ w1 @ '' '' @ w2
              @ '' '' @ t] st = st
       \<and> generate_skip
           (pre @ '': if '' @ f @ '' does not contain '' @ v @ '', '' @ w1 @ '' '' @ w2
              @ '' '' @ t) ty =
         Inr (tabs 3 @ ''<skip fieldname='' @ quoted f
                @ '' condition = 'does not contain' response='' @ quoted v
                @ '' response_type='fixed' skiptofieldname ='' @ quoted t @ ''></skip>'')"
proof -
  from assms(1) have "pre = ''preskip'' \<or> pre = ''postskip''" by auto
  from check_skip_lines_template [OF this assms(2-13)]
    generate_skip_template [OF assms(1-6)]
  show ?thesis by blast
qed

text \<open>
  Claim C7 does not hold of the code.  \<open>_check_skip_syntax\<close> knows a \<open>does not contain\<close>
  line by the phrase and asks nothing of the text after the comma, while \<open>_generate_skip\<close>
  knows it by the count of nine spaces.  The line \<open>preskip: if a does not contain 5, d\<close>
  holds seven: the sheet with that Skip cell is read without an error, and the \<open>skip\<close>
  element written for it has the condition \<open>does\<close> and the response \<open>no\<close>, taken at the
  offsets of the ordinary operators.  With the target \<open>contains_b\<close> the line holds the word
  \<open>contains\<close>, and the offsets of \<open>contains\<close> give the condition \<open>contains\<close> and the
  response \<open>no\<close>.  The same line with \<open>, skip to d\<close> holds nine spaces and is written with
  the condition \<open>does not contain\<close> and the response \<open>5\<close>.
\<close>

theorem does_not_contain_skip_lost:
  "logstring (create_question_list remdups (sheet_of_rows ''s_dd''
          [COLUMN_NAMES,
           [''a'', ''text'', ''text'', ''A?'', ''20''],
           [''b'', ''text'', ''text'', ''B?'', ''20'', '''', '''', '''', '''', '''', '''', '''',
            ''preskip: if a does not contain 5, d''],
           [''d'', ''text'', ''text'', ''D?'', ''20'']]) new_ExcelReader)
     = [CR @ ''Checking worksheet: '' @ quoted ''s_dd'', ''No errors found in '' @ quoted ''s_dd'']
   \<and> \<not> errorsEncountered (create_question_list remdups (sheet_of_rows ''s_dd''
          [COLUMN_NAMES,
           [''a'', ''text'', ''text'', ''A?'', ''20''],
           [''b'', ''text'', ''text'', ''B?'', ''20'', '''', '''', '''', '''', '''', '''', '''',
            ''preskip: if a does not contain 5, d''],
           [''d'', ''text'', ''text'', ''D?'', ''20'']]) new_ExcelReader)
   \<and> write_xml ''s_dd'' (questionList (create_question_list remdups (sheet_of_rows ''s_dd''
          [COLUMN_NAMES,
           [''a'', ''text'', ''text'', ''A?'', ''20''],
           [''b'', ''text'', ''text'', ''B?'', ''20'', '''', '''', '''', '''', '''', '''', '''',
            ''preskip: if a does not contain 5, d''],
           [''d'', ''text'', ''text'', ''D?'', ''20'']]) new_ExcelReader))
       = (''s.xml'',
          [''<?xml version = '1.0' encoding = 'utf-8'?>'' @ NL, ''<survey>'' @ NL @ NL]
          @ [tabs 1 @ ''<question type = 'text' fieldname = 'a' fieldtype = 'text'>'' @ NL,
             tabs 2 @ ''<text>A?</text>'' @ NL,
             tabs 2 @ ''<maxCharacters>20</maxCharacters>'' @ NL,
             tabs 1 @ ''</question>'' @ NL @ NL,
             tabs 1 @ ''<question type = 'text' fieldname = 'b' fieldtype = 'text'>'' @ NL,
             tabs 2 @ ''<text>B?</text>'' @ NL,
             tabs 2 @ ''<maxCharacters>20</maxCharacters>'' @ NL,
             tabs 2 @ ''<preskip>'' @ NL,
             tabs 3 @ ''<skip fieldname='a' condition = 'does' response='no' ''
               @ ''response_type='fixed' skiptofieldname ='d'></skip>'' @ NL,
             tabs 2 @ ''</preskip>'' @ NL,
             tabs 1 @ ''</question>'' @ NL @ NL,
             tabs 1 @ ''<question type = 'text' fieldname = 'd' fieldtype = 'text'>'' @ NL,
             tabs 2 @ ''<text>D?</text>'' @ NL,
             tabs 2 @ ''<maxCharacters>20</maxCharacters>'' @ NL,
             tabs 1 @ ''</question>'' @ NL @ NL]
          @ [tabs 1 @ ''<question type = 'information' fieldname = 'end_of_questions' fieldtype = 'n/a'>'' @ NL,
              tabs 2 @ ''<text>Press the 'Finish' button to save the data.</text >'' @ NL,
              tabs 1 @ ''</question>'' @ NL @ NL,
              ''</survey>'' @ NL],
          None)
   \<and> check_skip_syntax ''s_dd'' ''preskip: if a does not contain 5, d'' ''b'' new_ExcelReader
       = new_ExcelReader
   \<and> generate_skip ''preskip: if a does not contain 5, d'' ''preSkip'' =
       Inr (tabs 3 @ ''<skip fieldname='a' condition = 'does' response='no' ''
              @ ''response_type='fixed' skiptofieldname ='d'></skip>'')
   \<and> check_skip_syntax ''s_dd'' ''preskip: if a does not contain 5, contains_b'' ''b''
         new_ExcelReader
       = new_ExcelReader
   \<and> generate_skip ''preskip: if a does not contain 5, contains_b'' ''preSkip'' =
       Inr (tabs 3 @ ''<skip fieldname='a' condition = 'contains' response='no' ''
              @ ''response_type='fixed' skiptofieldname ='contains_b'></skip>'')
   \<and> generate_skip ''preskip: if a does not contain 5, skip to d'' ''preSkip'' =
       Inr (tabs 3 @ ''<skip fieldname='a' condition = 'does not contain' response='5' ''
              @ ''response_type='fixed' skiptofieldname ='d'></skip>'')"
  by code_simp


section \<open>Properties of reading a sheet\<close>

subsection \<open>The whole-sheet checks\<close>

lemma check_required_max_characters_log:
  "check_required_max_characters w st =
     log_errors st
       (concat (map (\<lambda>q. if fieldType q \<in> {''text'', ''text_integer'', ''phone_num''}
           \<and> questionType q \<notin> {''automatic'', ''checkbox'', ''combobox''}
           \<and> maxCharacters q = ''-9''
          then [msg_needs_max_characters w (fieldName q)] else []) (questionList st)))"
  unfolding check_required_max_characters_def
  by (rule foldl_log_errors) simp

lemma check_duplicate_columns_log:
  "check_duplicate_columns w st =
     log_errors st
       ((\<lambda>qs. let fields = map fieldName (filter (\<lambda>q. questionType q \<noteq> ''information'') qs);
                 duplicates = sort (remdups (filter (\<lambda>f. count_list fields f > 1) fields))
             in if \<not> distinct fields
                then [''ERROR - Duplicate fieldnames found in worksheet: '' @ w
                        @ ''. Duplicated fieldnames: '' @ py_join '','' duplicates
                        @ ''. Check for empty rows at the end of the spreadsheet and delete them.'']
                else []) (questionList st))"
  by (simp add: check_duplicate_columns_def Let_def)

text \<open>
  Four checks that only log, each a function of the question list, run one after the
  other: each adds what it would add on the first state.
\<close>

lemma logger_chain:
  assumes m: "\<And>st. c1 st = log_errors st (M1 (questionList st))"
       "\<And>st. c2 st = log_errors st (M2 (questionList st))"
       "\<And>st. c3 st = log_errors st (M3 (questionList st))"
       "\<And>st. c4 st = log_errors st (M4 (questionList st))"
  shows "logstring (c4 (c3 (c2 (c1 st)))) =
           logstring st @ added_diagnostics c1 st @ added_diagnostics c2 st
             @ added_diagnostics c3 st @ added_diagnostics c4 st"
    and "worksheetErrorsEncountered (c4 (c3 (c2 (c1 st)))) =
           (worksheetErrorsEncountered st \<or> added_diagnostics c1 st @ added_diagnostics c2 st
             @ added_diagnostics c3 st @ added_diagnostics c4 st \<noteq> [])"
    and "questionList (c4 (c3 (c2 (c1 st)))) = questionList st"
proof -
  show "logstring (c4 (c3 (c2 (c1 st)))) =
           logstring st @ added_diagnostics c1 st @ added_diagnostics c2 st
             @ added_diagnostics c3 st @ added_diagnostics c4 st"
    by (simp add: m added_diagnostics_def)
  show "worksheetErrorsEncountered (c4 (c3 (c2 (c1 st)))) =
           (worksheetErrorsEncountered st \<or> added_diagnostics c1 st @ added_diagnostics c2 st
             @ added_diagnostics c3 st @ added_diagnostics c4 st \<noteq> [])"
    by (auto simp: m added_diagnostics_def)
  show "questionList (c4 (c3 (c2 (c1 st)))) = questionList st"
    by (simp add: m)
qed

text \<open>
  Claim C2, amended.  The four whole-sheet checks stand under the test
  \<open>if not self.worksheetErrorsEncountered\<close>: when a row of the sheet has recorded an error,
  none of them runs, and \<open>create_question_list\<close> leaves the reader as the loop over the rows
  left it.  When no row has recorded an error all four run, in the order logic-check field
  names, skip targets, required MaxCharacters, duplicate field names, and their diagnostics
  stack: the log is the log of the rows, then what each of the four adds on the state the
  rows left, then \<open>No errors found\<close> if none of them added anything.
\<close>

theorem late_checks_guarded:
  "(worksheetErrorsEncountered (read_rows ws st) \<longrightarrow>
      create_question_list set_iter ws st = read_rows ws st)
   \<and> (\<not> worksheetErrorsEncountered (read_rows ws st) \<longrightarrow>
      logstring (create_question_list set_iter ws st) =
        logstring (read_rows ws st) @ late_diagnostics set_iter (title ws) (read_rows ws st)
          @ (if late_diagnostics set_iter (title ws) (read_rows ws st) = []
             then [''No errors found in '' @ quoted (title ws)] else []))"
  using logger_chain [OF check_logic_field_names_log [of set_iter "title ws"]
      check_skip_to_field_names_log [of "title ws"]
      check_required_max_characters_log [of "title ws"]
      check_duplicate_columns_log [of "title ws"], where st = "read_rows ws st"]
  by (simp add: create_question_list_def Let_def late_diagnostics_def)

theorem late_checks_guarded_witness:
  "create_question_list remdups
       (sheet_of_rows ''s_dd'' [COLUMN_NAMES, [''name'', ''text'', ''text'', '''', '''']]) new_ExcelReader
     = read_rows (sheet_of_rows ''s_dd'' [COLUMN_NAMES, [''name'', ''text'', ''text'', '''', '''']]) new_ExcelReader
   \<and> logstring (create_question_list rev
       (sheet_of_rows ''s_dd''
          [COLUMN_NAMES, [''name'', ''text'', ''text'', ''Name?'', ''''],
           [''name'', ''text'', ''text'', ''Name again?'', ''20'']]) new_ExcelReader) =
      [CR @ ''Checking worksheet: '' @ quoted ''s_dd'',
       msg_needs_max_characters ''s_dd'' ''name'',
       ''ERROR - Duplicate fieldnames found in worksheet: s_dd. Duplicated fieldnames: name. ''
          @ ''Check for empty rows at the end of the spreadsheet and delete them.'']"
proof -
  let ?A = "(sheet_of_rows ''s_dd'' [COLUMN_NAMES, [''name'', ''text'', ''text'', '''', '''']])"
  let ?B = "(sheet_of_rows ''s_dd''
          [COLUMN_NAMES, [''name'', ''text'', ''text'', ''Name?'', ''''],
           [''name'', ''text'', ''text'', ''Name again?'', ''20'']])"
  have a: "worksheetErrorsEncountered (read_rows ?A new_ExcelReader)" by code_simp
  have b: "\<not> worksheetErrorsEncountered (read_rows ?B new_ExcelReader)" by code_simp
  have c: "logstring (read_rows ?B new_ExcelReader)
             = [CR @ ''Checking worksheet: '' @ quoted ''s_dd'']"
    by code_simp
  have d: "late_diagnostics rev (title ?B) (read_rows ?B new_ExcelReader) =
     [msg_needs_max_characters ''s_dd'' ''name'',
       ''ERROR - Duplicate fieldnames found in worksheet: s_dd. Duplicated fieldnames: name. ''
          @ ''Check for empty rows at the end of the spreadsheet and delete them.'']"
    by code_simp
  from late_checks_guarded [of ?A new_ExcelReader remdups]
    late_checks_guarded [of ?B new_ExcelReader rev] a b c d
  show ?thesis by simp
qed

text \<open>
  The claim as stated fails on a sheet whose only question has a blank QuestionText (an
  error of its row) and a text field without MaxCharacters: run on the state the rows
  left, \<open>_check_required_max_characters\<close> would log the missing MaxCharacters, but the log
  of \<open>create_question_list\<close> does not hold that diagnostic.
\<close>

theorem late_checks_after_row_error_counterexample:
  "worksheetErrorsEncountered (read_rows (sheet_of_rows ''s_dd'' [COLUMN_NAMES, [''name'', ''text'', ''text'', '''', '''']]) new_ExcelReader)
   \<and> msg_needs_max_characters ''s_dd'' ''name''
      \<in> set (logstring (check_required_max_characters ''s_dd''
                (read_rows (sheet_of_rows ''s_dd'' [COLUMN_NAMES, [''name'', ''text'', ''text'', '''', '''']]) new_ExcelReader)))
   \<and> msg_needs_max_characters ''s_dd'' ''name''
      \<notin> set (logstring (create_question_list remdups (sheet_of_rows ''s_dd'' [COLUMN_NAMES, [''name'', ''text'', ''text'', '''', '''']]) new_ExcelReader))"
  by code_simp


subsection \<open>The question list does not depend on the reader's state\<close>

text \<open>
  Every check leaves \<open>self.questionList\<close> as it is, and what a parser does to the question
  under construction does not depend on the state of the reader.  The proofs distribute
  the selectors over the branches of the definitions.
\<close>

lemma questionList_reader_warning:
  "questionList (reader_warning st m) = questionList st"
  by (simp add: reader_warning_def)

lemma case_option_same: "(case x of None \<Rightarrow> a | Some y \<Rightarrow> a) = a"
  by (cases x) simp_all

lemma case_list_same: "(case x of [] \<Rightarrow> a | y # ys \<Rightarrow> a) = a"
  by (cases x) simp_all

lemmas ql_rules =
  if_distrib [of questionList] option.case_distrib [of questionList]
  list.case_distrib [of questionList] questionList_reader_error questionList_reader_warning
  if_cancel case_option_same case_list_same

lemma ql_check_field_name:
  "questionList (check_field_name w f st) = questionList st"
  unfolding check_field_name_def by (simp only: ql_rules)

lemma ql_check_max_chars_value:
  "questionList (check_max_chars_value w m f st) = questionList st"
  unfolding check_max_chars_value_def Let_def by (simp only: ql_rules)

lemma ql_check_static_responses:
  "questionList (check_static_responses w f seen rs st) = questionList st"
proof (induction rs arbitrary: seen)
  case Nil
  show ?case by (simp only: check_static_responses.simps)
next
  case (Cons r rs)
  show ?case
    unfolding check_static_responses.simps Let_def
    by (simp only: ql_rules Cons.IH)
qed

lemma ql_check_question_field_type:
  "questionList (check_question_field_type q w st) = questionList st"
  unfolding check_question_field_type_def Let_def
  by (simp only: ql_rules ql_check_static_responses)

lemma ql_check_numeric_range:
  "questionList (check_numeric_range w v f r st) = questionList st"
  unfolding check_numeric_range_def by (simp only: ql_rules)

lemma ql_check_date_range:
  "questionList (check_date_range w v f r st) = questionList st"
  unfolding check_date_range_def by (simp only: ql_rules)

lemma ql_check_logic_check_syntax:
  "questionList (check_logic_check_syntax w l f st) = questionList st"
  unfolding check_logic_check_syntax_def Let_def by (simp only: ql_rules)

lemma ql_check_special_button:
  "questionList (check_special_button w v f b st) = questionList st"
  unfolding check_special_button_def by (simp only: ql_rules)

lemma ql_check_skip_lines:
  "questionList (check_skip_lines w f ls st) = questionList st"
proof (induction ls)
  case Nil
  show ?case by (simp only: check_skip_lines.simps)
next
  case (Cons l ls)
  show ?case
    unfolding check_skip_lines.simps Let_def
    by (simp only: ql_rules Cons.IH)
qed

lemma ql_check_skip_syntax:
  "questionList (check_skip_syntax w s f st) = questionList st"
  unfolding check_skip_syntax_def by (rule ql_check_skip_lines)

lemma ql_validate_calculation_fields:
  "questionList (validate_calculation_fields q w f st) = questionList st"
  unfolding validate_calculation_fields_def Let_def by (simp only: ql_rules)

lemmas ql_checks =
  ql_check_field_name ql_check_max_chars_value ql_check_question_field_type
  ql_check_numeric_range ql_check_date_range ql_check_logic_check_syntax
  ql_check_special_button ql_check_skip_syntax ql_validate_calculation_fields


text \<open>Loops over the lines of a cell.\<close>

lemma foldl_snd_blind:
  assumes "\<And>sq sq' l. snd sq = snd sq' \<Longrightarrow> snd (step sq l) = snd (step sq' l)"
    and "snd sq = snd sq'"
  shows "snd (foldl step sq ls) = snd (foldl step sq' ls)"
  using assms(2)
proof (induction ls arbitrary: sq sq')
  case Nil
  then show ?case by simp
next
  case (Cons l ls)
  show ?case unfolding foldl_Cons
    by (rule Cons.IH) (rule assms(1) [OF Cons.prems])
qed

lemma foldl_fst_questionList:
  assumes "\<And>sq l. questionList (fst (step sq l)) = questionList (fst sq)"
  shows "questionList (fst (foldl step sq ls)) = questionList (fst sq)"
  by (induction ls arbitrary: sq) (simp_all add: assms)

lemmas fst_rules =
  if_distrib [of fst] option.case_distrib [of fst] fst_conv snd_conv case_prod_beta

lemmas snd_rules =
  if_distrib [of snd] option.case_distrib [of snd] fst_conv snd_conv case_prod_beta

lemma dynamic_response_line_snd:
  assumes "snd sq = snd sq'"
  shows "snd (dynamic_response_line w f sq l) = snd (dynamic_response_line w f sq' l)"
  unfolding dynamic_response_line_def Let_def
  by (simp only: snd_rules assms)

lemma dynamic_response_line_ql:
  "questionList (fst (dynamic_response_line w f sq l)) = questionList (fst sq)"
  unfolding dynamic_response_line_def Let_def
  by (simp only: fst_rules ql_rules)

lemma parse_dynamic_responses_snd:
  "snd (parse_dynamic_responses rs q w f st) = snd (parse_dynamic_responses rs q w f st')"
  unfolding parse_dynamic_responses_def
  by (rule foldl_snd_blind [OF dynamic_response_line_snd]) simp_all

lemma parse_dynamic_responses_ql:
  "questionList (fst (parse_dynamic_responses rs q w f st)) = questionList st"
  unfolding parse_dynamic_responses_def
  by (simp add: foldl_fst_questionList [OF dynamic_response_line_ql])

lemma parse_parameter_snd:
  "snd (parse_parameter ps q w f st) = snd (parse_parameter ps q w f st')"
  unfolding parse_parameter_def Let_def
  by (simp only: snd_rules)

lemma parse_parameter_ql:
  "questionList (fst (parse_parameter ps q w f st)) = questionList st"
  unfolding parse_parameter_def Let_def
  by (simp only: fst_rules ql_rules)

lemma parse_when_condition_snd:
  assumes "snd sq = snd sq'"
  shows "snd (parse_when_condition w f sq l) = snd (parse_when_condition w f sq' l)"
  unfolding parse_when_condition_def Let_def
  by (simp only: snd_rules assms)

lemma parse_when_condition_ql:
  "questionList (fst (parse_when_condition w f sq l)) = questionList (fst sq)"
  unfolding parse_when_condition_def Let_def
  by (simp only: fst_rules ql_rules)

lemma parse_part_line_snd:
  "snd (parse_part_line pl w f st) = snd (parse_part_line pl w f st')"
  unfolding parse_part_line_def Let_def
  by (simp only: snd_rules)

lemma parse_part_line_ql:
  "questionList (fst (parse_part_line pl w f st)) = questionList st"
  unfolding parse_part_line_def Let_def
  by (simp only: fst_rules ql_rules)

lemma calculation_part_line_snd:
  assumes "snd sq = snd sq'"
  shows "snd (calculation_part_line w f cc sq l) = snd (calculation_part_line w f cc sq' l)"
  unfolding calculation_part_line_def Let_def
  by (simp only: snd_rules assms
        parse_part_line_snd [where st = "fst sq" and st' = "fst sq'"])

lemma calculation_part_line_ql:
  "questionList (fst (calculation_part_line w f cc sq l)) = questionList (fst sq)"
  unfolding calculation_part_line_def Let_def
  by (simp only: fst_rules ql_rules parse_part_line_ql)

lemma calculation_line_snd:
  assumes "snd cs = snd cs'"
  shows "snd (calculation_line w f cs l) = snd (calculation_line w f cs' l)"
  unfolding calculation_line_def Let_def
  by (simp only: snd_rules assms
        parse_parameter_snd [where st = "fst cs" and st' = "fst cs'"])

lemma calculation_line_ql:
  "questionList (fst (calculation_line w f cs l)) = questionList (fst cs)"
  unfolding calculation_line_def Let_def
  by (simp only: fst_rules ql_rules parse_parameter_ql)

lemma logic_check_line_snd:
  assumes "snd sq = snd sq'"
  shows "snd (logic_check_line w sq l) = snd (logic_check_line w sq' l)"
  unfolding logic_check_line_def Let_def
  by (simp only: snd_rules assms)

lemma logic_check_line_ql:
  "questionList (fst (logic_check_line w sq l)) = questionList (fst sq)"
  unfolding logic_check_line_def Let_def
  by (simp only: fst_rules ql_rules ql_checks)


lemma parse_automatic_calculation_snd:
  "snd (parse_automatic_calculation rs q w f st) = snd (parse_automatic_calculation rs q w f st')"
proof -
  let ?A = "foldl (calculation_line w f) (st, q, [], [], []) (split_lines rs)"
  let ?A' = "foldl (calculation_line w f) (st', q, [], [], []) (split_lines rs)"
  have a: "snd ?A = snd ?A'"
    by (rule foldl_snd_blind [OF calculation_line_snd]) simp_all
  obtain st1 q1 cc wl pl where A: "?A = (st1, q1, cc, wl, pl)" by (cases ?A)
  obtain st1' where A': "?A' = (st1', q1, cc, wl, pl)" using a A by (cases ?A') simp
  define B where "B = (if cc = ''case'' then foldl (parse_when_condition w f) (st1, q1) wl
                       else (st1, q1))"
  define B' where "B' = (if cc = ''case'' then foldl (parse_when_condition w f) (st1', q1) wl
                         else (st1', q1))"
  have bf: "snd (foldl (parse_when_condition w f) (st1, q1) wl)
              = snd (foldl (parse_when_condition w f) (st1', q1) wl)"
    by (rule foldl_snd_blind [OF parse_when_condition_snd]) simp_all
  have b: "snd B = snd B'"
    unfolding B_def B'_def using bf by (cases "cc = ''case''") simp_all
  define C where "C = (if cc \<in> {''math'', ''concat''}
                       then foldl (calculation_part_line w f cc) B pl else B)"
  define C' where "C' = (if cc \<in> {''math'', ''concat''}
                         then foldl (calculation_part_line w f cc) B' pl else B')"
  have cf: "snd (foldl (calculation_part_line w f cc) B pl)
              = snd (foldl (calculation_part_line w f cc) B' pl)"
    by (rule foldl_snd_blind [OF calculation_part_line_snd b])
  have c: "snd C = snd C'"
    unfolding C_def C'_def using cf b by (cases "cc \<in> {''math'', ''concat''}") simp_all
  have l: "snd (parse_automatic_calculation rs q w f st) = snd C"
    unfolding parse_automatic_calculation_def A Let_def C_def B_def
    by (simp only: prod.case snd_conv)
  have r: "snd (parse_automatic_calculation rs q w f st') = snd C'"
    unfolding parse_automatic_calculation_def A' Let_def C'_def B'_def
    by (simp only: prod.case snd_conv)
  show ?thesis unfolding l r by (rule c)
qed

lemma parse_automatic_calculation_ql:
  "questionList (fst (parse_automatic_calculation rs q w f st)) = questionList st"
proof -
  let ?A = "foldl (calculation_line w f) (st, q, [], [], []) (split_lines rs)"
  have a: "questionList (fst ?A) = questionList st"
    by (simp add: foldl_fst_questionList [OF calculation_line_ql])
  obtain st1 q1 cc wl pl where A: "?A = (st1, q1, cc, wl, pl)" by (cases ?A)
  from a A have a1: "questionList st1 = questionList st" by simp
  define B where "B = (if cc = ''case'' then foldl (parse_when_condition w f) (st1, q1) wl
                       else (st1, q1))"
  have b: "questionList (fst B) = questionList st"
    unfolding B_def using a1
    by (cases "cc = ''case''") (simp_all add: foldl_fst_questionList [OF parse_when_condition_ql])
  define C where "C = (if cc \<in> {''math'', ''concat''}
                       then foldl (calculation_part_line w f cc) B pl else B)"
  have c: "questionList (fst C) = questionList st"
    unfolding C_def using b
    by (cases "cc \<in> {''math'', ''concat''}")
       (simp_all add: foldl_fst_questionList [OF calculation_part_line_ql])
  have l: "fst (parse_automatic_calculation rs q w f st)
             = validate_calculation_fields (snd C) w f (fst C)"
    unfolding parse_automatic_calculation_def A Let_def C_def B_def
    by (simp only: prod.case fst_conv)
  show ?thesis unfolding l ql_validate_calculation_fields by (rule c)
qed

text \<open>The blocks of the body of the loop over the rows.\<close>

lemma row_texts_snd:
  assumes "snd sq = snd sq'"
  shows "snd (row_texts ws r sq) = snd (row_texts ws r sq')"
  unfolding row_texts_def Let_def by (simp only: snd_rules assms)

lemma row_texts_ql:
  "questionList (fst (row_texts ws r sq)) = questionList (fst sq)"
  unfolding row_texts_def Let_def by (simp only: fst_rules ql_rules ql_checks)

lemma row_responses_snd:
  assumes "snd sq = snd sq'"
  shows "snd (row_responses ws r sq) = snd (row_responses ws r sq')"
  unfolding row_responses_def Let_def
  by (simp only: snd_rules assms
        parse_dynamic_responses_snd [where st = "fst sq" and st' = "fst sq'"]
        parse_automatic_calculation_snd [where st = "fst sq" and st' = "fst sq'"])

lemma row_responses_ql:
  "questionList (fst (row_responses ws r sq)) = questionList (fst sq)"
  unfolding row_responses_def Let_def
  by (simp only: fst_rules ql_rules ql_checks parse_dynamic_responses_ql
        parse_automatic_calculation_ql)

lemma row_ranges_snd:
  assumes "snd sq = snd sq'"
  shows "snd (row_ranges ws r sq) = snd (row_ranges ws r sq')"
  unfolding row_ranges_def Let_def by (simp only: snd_rules assms)

lemma row_ranges_ql:
  "questionList (fst (row_ranges ws r sq)) = questionList (fst sq)"
  unfolding row_ranges_def Let_def by (simp only: fst_rules ql_rules ql_checks)

lemma row_logic_snd:
  assumes "snd sq = snd sq'"
  shows "snd (row_logic ws r sq) = snd (row_logic ws r sq')"
proof -
  have "snd (foldl (logic_check_line (title ws)) sq (split_lines (get_cell_trim ws r 9)))
      = snd (foldl (logic_check_line (title ws)) sq' (split_lines (get_cell_trim ws r 9)))"
    by (rule foldl_snd_blind [OF logic_check_line_snd assms])
  with assms show ?thesis
    unfolding row_logic_def Let_def by (cases "get_cell_trim ws r 9 = []") simp_all
qed

lemma row_logic_ql:
  "questionList (fst (row_logic ws r sq)) = questionList (fst sq)"
  unfolding row_logic_def Let_def
  by (cases "get_cell_trim ws r 9 = []")
     (simp_all add: foldl_fst_questionList [OF logic_check_line_ql])

lemma row_buttons_snd:
  assumes "snd sq = snd sq'"
  shows "snd (row_buttons ws r sq) = snd (row_buttons ws r sq')"
  unfolding row_buttons_def Let_def by (simp only: snd_rules assms)

lemma row_buttons_ql:
  "questionList (fst (row_buttons ws r sq)) = questionList (fst sq)"
  unfolding row_buttons_def Let_def by (simp only: fst_rules ql_rules ql_checks)

lemma row_skip_snd:
  assumes "snd sq = snd sq'"
  shows "snd (row_skip ws r sq) = snd (row_skip ws r sq')"
  unfolding row_skip_def Let_def by (simp only: snd_rules assms)

lemma row_skip_ql:
  "questionList (fst (row_skip ws r sq)) = questionList (fst sq)"
  unfolding row_skip_def Let_def by (simp only: fst_rules ql_rules ql_checks)

lemma questionList_update: "questionList (x\<lparr>questionList := v\<rparr>) = v"
  by simp

lemma process_row_questionList:
  assumes "questionList st = questionList st'"
  shows "questionList (process_row ws st r) = questionList (process_row ws st' r)"
proof -
  define q0 where "q0 = new_Question\<lparr>fieldName := get_cell_trim ws r 1\<rparr>"
  define sq where "sq = row_skip ws r (row_buttons ws r (row_logic ws r (row_ranges ws r
               (row_responses ws r (row_texts ws r (st, q0))))))"
  define sq' where "sq' = row_skip ws r (row_buttons ws r (row_logic ws r (row_ranges ws r
               (row_responses ws r (row_texts ws r (st', q0))))))"
  have s: "snd sq = snd sq'"
    unfolding sq_def sq'_def
    by (intro row_skip_snd row_buttons_snd row_logic_snd row_ranges_snd row_responses_snd
          row_texts_snd) simp
  have q: "questionList (fst sq) = questionList st"
    unfolding sq_def
    by (simp only: row_skip_ql row_buttons_ql row_logic_ql row_ranges_ql row_responses_ql
          row_texts_ql fst_conv)
  have q': "questionList (fst sq') = questionList st'"
    unfolding sq'_def
    by (simp only: row_skip_ql row_buttons_ql row_logic_ql row_ranges_ql row_responses_ql
          row_texts_ql fst_conv)
  have l: "questionList (process_row ws st r) =
      (if r = 1 then questionList st
       else if cell_merged ws r NUMBER_OF_COLUMNS then questionList st
       else if fieldName q0 = [] then questionList st
       else questionList st @ [snd sq])"
    unfolding process_row_def Let_def q0_def [symmetric] sq_def [symmetric]
    by (simp only: ql_rules questionList_update q)
  have r: "questionList (process_row ws st' r) =
      (if r = 1 then questionList st'
       else if cell_merged ws r NUMBER_OF_COLUMNS then questionList st'
       else if fieldName q0 = [] then questionList st'
       else questionList st' @ [snd sq'])"
    unfolding process_row_def Let_def q0_def [symmetric] sq'_def [symmetric]
    by (simp only: ql_rules questionList_update q')
  show ?thesis unfolding l r s assms ..
qed

lemma read_rows_questionList:
  "questionList (read_rows ws st) = questionList (read_rows ws st')"
proof -
  have "\<And>a b. questionList a = questionList b \<Longrightarrow>
      questionList (foldl (process_row ws) a rs) = questionList (foldl (process_row ws) b rs)"
    for rs
  proof (induction rs)
    case Nil
    then show ?case by simp
  next
    case (Cons r rs)
    show ?case unfolding foldl_Cons
      by (rule Cons.IH) (rule process_row_questionList [OF Cons.prems])
  qed
  then show ?thesis unfolding read_rows_def by simp
qed

lemma create_question_list_questionList:
  "questionList (create_question_list set_iter ws st) = questionList (read_rows ws st)"
  unfolding create_question_list_def Let_def
  by (simp add: check_logic_field_names_log check_skip_to_field_names_log
        check_required_max_characters_log check_duplicate_columns_log)

text \<open>
  Claim C8.  Two things can differ between two passes over the same cells: the state of
  the reader before the pass (its log, its flags and the question list of an earlier
  pass) and the order in which a Python set of identifiers is iterated.  Neither has an
  influence on the question list \<open>create_question_list\<close> returns, and so none on the
  file name, the lines and the outcome of \<open>write_xml\<close> on that list: two passes give the
  same Question list and the same markup, whether or not the sheet records an error.
\<close>

theorem parse_emit_deterministic:
  "questionList (create_question_list set_iter ws st)
     = questionList (create_question_list set_iter' ws st')
   \<and> write_xml (title ws) (questionList (create_question_list set_iter ws st))
     = write_xml (title ws) (questionList (create_question_list set_iter' ws st'))"
proof -
  have "questionList (create_question_list set_iter ws st)
          = questionList (create_question_list set_iter' ws st')"
    unfolding create_question_list_questionList by (rule read_rows_questionList)
  then show ?thesis by simp
qed

theorem parse_emit_deterministic_witness:
  "write_xml ''s_dd''
      (questionList (create_question_list rev (sheet_of_rows ''s_dd''
          [COLUMN_NAMES,
           [''a'', ''text'', ''text'', ''A?'', ''20''],
           [''b'', ''radio'', ''integer'', ''B?'', '''', ''1:Yes'' @ NL @ ''2:No'', '''', '''',
            ''b = 1 or a = 2; 'Check b'' @ SQ, '''', '''', '''',
            ''postskip: if b = 2, d''],
           [''d'', ''text'', ''text'', ''D?'', ''20'']])
         (create_question_list remdups (sheet_of_rows ''s_dd''
          [COLUMN_NAMES,
           [''a'', ''text'', ''text'', ''A?'', ''20''],
           [''b'', ''radio'', ''integer'', ''B?'', '''', ''1:Yes'' @ NL @ ''2:No'', '''', '''',
            ''b = 1 or a = 2; 'Check b'' @ SQ, '''', '''', '''',
            ''postskip: if b = 2, d''],
           [''d'', ''text'', ''text'', ''D?'', ''20'']]) new_ExcelReader)))
     = write_xml ''s_dd'' (questionList (create_question_list remdups (sheet_of_rows ''s_dd''
          [COLUMN_NAMES,
           [''a'', ''text'', ''text'', ''A?'', ''20''],
           [''b'', ''radio'', ''integer'', ''B?'', '''', ''1:Yes'' @ NL @ ''2:No'', '''', '''',
            ''b = 1 or a = 2; 'Check b'' @ SQ, '''', '''', '''',
            ''postskip: if b = 2, d''],
           [''d'', ''text'', ''text'', ''D?'', ''20'']]) new_ExcelReader))
   \<and> map fieldName (questionList (create_question_list rev (sheet_of_rows ''s_dd''
          [COLUMN_NAMES,
           [''a'', ''text'', ''text'', ''A?'', ''20''],
           [''b'', ''radio'', ''integer'', ''B?'', '''', ''1:Yes'' @ NL @ ''2:No'', '''', '''',
            ''b = 1 or a = 2; 'Check b'' @ SQ, '''', '''', '''',
            ''postskip: if b = 2, d''],
           [''d'', ''text'', ''text'', ''D?'', ''20'']])
         (create_question_list remdups (sheet_of_rows ''s_dd''
          [COLUMN_NAMES,
           [''a'', ''text'', ''text'', ''A?'', ''20''],
           [''b'', ''radio'', ''integer'', ''B?'', '''', ''1:Yes'' @ NL @ ''2:No'', '''', '''',
            ''b = 1 or a = 2; 'Check b'' @ SQ, '''', '''', '''',
            ''postskip: if b = 2, d''],
           [''d'', ''text'', ''text'', ''D?'', ''20'']]) new_ExcelReader))) = [''a'', ''b'', ''d'']
   \<and> length (fst (snd (write_xml ''s_dd''
         (questionList (create_question_list remdups (sheet_of_rows ''s_dd''
          [COLUMN_NAMES,
           [''a'', ''text'', ''text'', ''A?'', ''20''],
           [''b'', ''radio'', ''integer'', ''B?'', '''', ''1:Yes'' @ NL @ ''2:No'', '''', '''',
            ''b = 1 or a = 2; 'Check b'' @ SQ, '''', '''', '''',
            ''postskip: if b = 2, d''],
           [''d'', ''text'', ''text'', ''D?'', ''20'']]) new_ExcelReader))))) = 27
   \<and> snd (snd (write_xml ''s_dd''
         (questionList (create_question_list remdups (sheet_of_rows ''s_dd''
          [COLUMN_NAMES,
           [''a'', ''text'', ''text'', ''A?'', ''20''],
           [''b'', ''radio'', ''integer'', ''B?'', '''', ''1:Yes'' @ NL @ ''2:No'', '''', '''',
            ''b = 1 or a = 2; 'Check b'' @ SQ, '''', '''', '''',
            ''postskip: if b = 2, d''],
           [''d'', ''text'', ''text'', ''D?'', ''20'']]) new_ExcelReader)))) = None
   \<and> length (logstring (create_question_list rev (sheet_of_rows ''s_dd''
          [COLUMN_NAMES,
           [''a'', ''text'', ''text'', ''A?'', ''20''],
           [''b'', ''radio'', ''integer'', ''B?'', '''', ''1:Yes'' @ NL @ ''2:No'', '''', '''',
            ''b = 1 or a = 2; 'Check b'' @ SQ, '''', '''', '''',
            ''postskip: if b = 2, d''],
           [''d'', ''text'', ''text'', ''D?'', ''20'']])
         (create_question_list remdups (sheet_of_rows ''s_dd''
          [COLUMN_NAMES,
           [''a'', ''text'', ''text'', ''A?'', ''20''],
           [''b'', ''radio'', ''integer'', ''B?'', '''', ''1:Yes'' @ NL @ ''2:No'', '''', '''',
            ''b = 1 or a = 2; 'Check b'' @ SQ, '''', '''', '''',
            ''postskip: if b = 2, d''],
           [''d'', ''text'', ''text'', ''D?'', ''20'']]) new_ExcelReader))) = 4"
proof -
  let ?W = "(sheet_of_rows ''s_dd''
          [COLUMN_NAMES,
           [''a'', ''text'', ''text'', ''A?'', ''20''],
           [''b'', ''radio'', ''integer'', ''B?'', '''', ''1:Yes'' @ NL @ ''2:No'', '''', '''',
            ''b = 1 or a = 2; 'Check b'' @ SQ, '''', '''', '''',
            ''postskip: if b = 2, d''],
           [''d'', ''text'', ''text'', ''D?'', ''20'']])"
  have t: "title ?W = ''s_dd''" by (simp add: sheet_of_rows_def)
  have a: "map fieldName (questionList (create_question_list remdups ?W new_ExcelReader))
             = [''a'', ''b'', ''d'']"
    by code_simp
  have b: "length (fst (snd (write_xml ''s_dd''
         (questionList (create_question_list remdups ?W new_ExcelReader))))) = 27"
    by code_simp
  have c: "snd (snd (write_xml ''s_dd''
         (questionList (create_question_list remdups ?W new_ExcelReader)))) = None"
    by code_simp
  have d: "length (logstring (create_question_list rev ?W
         (create_question_list remdups ?W new_ExcelReader))) = 4"
    by code_simp
  from parse_emit_deterministic [of rev ?W "create_question_list remdups ?W new_ExcelReader"
      remdups new_ExcelReader] a b c d
  show ?thesis unfolding t by simp
qed

end
